theory Spec2Isabelle
  imports Complex_Main "HOL-Library.Multiset"
begin

section \<open>The store of exam_server.py\<close>

text \<open>
  The server keeps its state in one SQLite file. Each table is a list of rows, in the
  order in which SQLite returns them to a \<^verbatim>\<open>SELECT\<close> of the handlers below;
  \<^verbatim>\<open>fetchone\<close> and \<^verbatim>\<open>LIMIT 1\<close> take the head of that list. A column that
  holds \<^verbatim>\<open>json.dumps\<close> of a JSON object is modelled by the object itself, given
  as the list of its items (keys distinct), so that \<^verbatim>\<open>dict.get\<close> is
  \<^const>\<open>map_of\<close> and the empty dict is the empty list. Identifiers, option labels
  and answers are strings; \<^verbatim>\<open>duration\<close>, \<^verbatim>\<open>allowed_attempts\<close> and
  \<^verbatim>\<open>time_left\<close> are Python integers (the settings handler stores neither a
  missing duration nor missing attempts, and the save handler no missing time). The
  column \<^verbatim>\<open>submission_time\<close> of \<^verbatim>\<open>results\<close> is filled by SQLite's clock
  and read by none of the handlers modelled here; it is left out, as is the table
  \<^verbatim>\<open>teachers\<close>. A handler that writes does so in one transaction and is a
  function from the store to a response and the store it leaves. The start handler
  only reads, query by query and with no transaction: it is given both on one store
  and on the stores that its queries read one after the other.
\<close>

type_synonym json_object = "(string \<times> string) list"

record student_row =
  s_student_id :: string
  s_teacher_id :: string
  s_student_name :: string

record question_row =
  q_exam_id :: string
  q_teacher_id :: string
  q_question_text :: string
  q_correct_option :: string
  q_options :: json_object
  q_exam_title :: string
  q_school_name :: "string option"
  q_duration :: int
  q_allowed_attempts :: int
  q_passing_percentage :: real
  q_image_url :: "string option"
  q_enable_analysis_report :: int

record result_row =
  r_result_id :: string
  r_exam_id :: string
  r_student_id :: string
  r_teacher_id :: string
  r_student_name :: string
  r_score :: int
  r_answers :: json_object

record in_progress_row =
  p_student_id :: string
  p_exam_id :: string
  p_teacher_id :: string
  p_answers :: json_object
  p_question_status :: json_object
  p_time_left :: int

record db =
  students :: "student_row list"
  questions :: "question_row list"
  results :: "result_row list"
  in_progress_exams :: "in_progress_row list"

definition fetchone :: "'a list \<Rightarrow> 'a option" where
  "fetchone rows = (case rows of [] \<Rightarrow> None | r # _ \<Rightarrow> Some r)"

text \<open>
  The schema declares \<^verbatim>\<open>PRIMARY KEY (exam_id, question_text)\<close> on
  \<^verbatim>\<open>questions\<close>: no two rows of the table share both.
\<close>

definition pk_questions :: "db \<Rightarrow> bool" where
  "pk_questions d = distinct (map (\<lambda>q. (q_exam_id q, q_question_text q)) (questions d))"

subsection \<open>Responses\<close>

text \<open>
  A handler answers with a JSON body and an HTTP status. The failures are values:
  one constructor per \<^verbatim>\<open>return jsonify({'message': ...}), code\<close> of the source,
  and one for an exception, which the \<^verbatim>\<open>except Exception\<close> of the save and
  submit handlers turns into a 500 response (as the framework does with an exception
  that leaves the start handler). In the order of the constructors, the messages are:
  \<^verbatim>\<open>Exam not found.\<close>;
  \<^verbatim>\<open>Student ID not found or not associated with this exam.\<close>;
  \<^verbatim>\<open>Could not retrieve exam settings.\<close>;
  \<^verbatim>\<open>You have already taken this exam N times. No more attempts remaining.\<close>,
  with the number of attempts taken for N;
  \<^verbatim>\<open>This exam has no questions. Please contact your teacher.\<close>;
  \<^verbatim>\<open>Invalid data\<close>;
  \<^verbatim>\<open>Could not find questions for this exam to calculate score.\<close>;
  \<^verbatim>\<open>An error occurred\<close> followed by the text of the exception.
\<close>

datatype exn = AttributeError | IntegrityError | OperationalError | OverflowError | TypeError

datatype error =
    Exam_not_found
  | Student_not_associated
  | Settings_not_retrieved
  | No_attempts_remaining int
  | Exam_has_no_questions
  | Invalid_data
  | No_questions_to_score
  | An_error_occurred exn

fun status :: "error \<Rightarrow> nat" where
  "status Exam_not_found = 404"
| "status Student_not_associated = 404"
| "status Settings_not_retrieved = 404"
| "status (No_attempts_remaining n) = 403"
| "status Exam_has_no_questions = 404"
| "status Invalid_data = 400"
| "status No_questions_to_score = 500"
| "status (An_error_occurred e) = 500"

text \<open>
  A write to the store can fail for reasons outside the program (a locked or full
  database): \<^verbatim>\<open>sqlite3\<close> then raises at the statement or at the commit. The
  handlers take the failure, if any, as an argument.
\<close>

datatype fault = Insert_fails | Delete_fails | Commit_fails

section \<open>random.shuffle\<close>

text \<open>
  \<^verbatim>\<open>random.shuffle(x)\<close> of the Python library is the loop
  \<^verbatim>\<open>for i in reversed(range(1, len(x))): j = randbelow(i + 1); x[i], x[j] = x[j], x[i]\<close>.
  The random source is the function \<open>rnd\<close>: at index \<open>i\<close> the draw below
  \<open>i + 1\<close> is \<open>rnd i mod (i + 1)\<close>. The loop starts at the last index, so
  both indices of every exchange are within the list.
\<close>

fun shuffle_loop :: "(nat \<Rightarrow> nat) \<Rightarrow> nat \<Rightarrow> 'a list \<Rightarrow> 'a list" where
  "shuffle_loop rnd 0 x = x"
| "shuffle_loop rnd (Suc m) x =
     (let i = Suc m; j = rnd i mod (i + 1)
      in shuffle_loop rnd m (x[i := x ! j, j := x ! i]))"

definition shuffle :: "(nat \<Rightarrow> nat) \<Rightarrow> 'a list \<Rightarrow> 'a list" where
  "shuffle rnd x = shuffle_loop rnd (length x - 1) x"

section \<open>POST /api/exam/start\<close>

record question_view =
  v_question_text :: string
  v_options :: json_object
  v_image_url :: "string option"

record exam_data =
  d_exam_title :: string
  d_school_name :: "string option"
  d_duration :: int
  d_allowed_attempts :: int
  d_passing_percentage :: real
  d_enable_analysis_report :: bool
  d_questions :: "question_view list"
  d_answers :: json_object
  d_question_status :: json_object
  d_time_left :: int
  d_attempt_number :: int

record start_payload =
  sp_student_name :: string
  sp_teacher_id :: string
  sp_exam_data :: exam_data

text \<open>
  The request fields are read with \<^verbatim>\<open>data.get\<close>: a missing field is
  \<open>None\<close>, and a \<open>None\<close> parameter of a query matches no row. The handler only
  reads the store, so it is a function of the store with no store in its result. Its
  last step reads \<^verbatim>\<open>student_data['student_name']\<close>, which raises when the
  query for the student came back empty.
\<close>

definition questions_of_exam :: "db \<Rightarrow> string option \<Rightarrow> question_row list" where
  "questions_of_exam d exam_id = [q \<leftarrow> questions d. Some (q_exam_id q) = exam_id]"

definition real_questions :: "db \<Rightarrow> string option \<Rightarrow> question_row list" where
  "real_questions d exam_id =
     [q \<leftarrow> questions d. Some (q_exam_id q) = exam_id \<and> q_question_text q \<noteq> ''placeholder'']"

definition num_attempts :: "db \<Rightarrow> string option \<Rightarrow> string option \<Rightarrow> int" where
  "num_attempts d student_id exam_id =
     int (length [r \<leftarrow> results d. Some (r_student_id r) = student_id \<and> Some (r_exam_id r) = exam_id])"

definition to_view :: "question_row \<Rightarrow> question_view" where
  "to_view q = \<lparr>v_question_text = q_question_text q, v_options = q_options q,
     v_image_url = q_image_url q\<rparr>"

definition check_exam_eligibility ::
  "db \<Rightarrow> (nat \<Rightarrow> nat) \<Rightarrow> string option \<Rightarrow> string option \<Rightarrow> error + start_payload" where
  "check_exam_eligibility d rnd student_id exam_id =
     (case fetchone (questions_of_exam d exam_id) of
        None \<Rightarrow> Inl Exam_not_found
      | Some exam_teacher \<Rightarrow>
          (case fetchone [s \<leftarrow> students d. Some (s_student_id s) = student_id \<and>
                            s_teacher_id s = q_teacher_id exam_teacher] of
             None \<Rightarrow> Inl Student_not_associated
           | Some _ \<Rightarrow>
               (case fetchone (questions_of_exam d exam_id) of
                  None \<Rightarrow> Inl Settings_not_retrieved
                | Some exam_settings \<Rightarrow>
                    (let allowed_attempts = q_allowed_attempts exam_settings;
                         attempts_taken = num_attempts d student_id exam_id
                     in if attempts_taken \<ge> allowed_attempts
                        then Inl (No_attempts_remaining attempts_taken)
                        else
                          (let student_data = fetchone [s \<leftarrow> students d. Some (s_student_id s) = student_id];
                               exam_data_rows = real_questions d exam_id
                           in if exam_data_rows = [] then Inl Exam_has_no_questions
                              else
                                (let questions_list = shuffle rnd (map to_view exam_data_rows);
                                     in_progress_data = fetchone [p \<leftarrow> in_progress_exams d.
                                        Some (p_student_id p) = student_id \<and> Some (p_exam_id p) = exam_id];
                                     exam_data = \<lparr>
                                       d_exam_title = q_exam_title exam_settings,
                                       d_school_name = q_school_name exam_settings,
                                       d_duration = q_duration exam_settings,
                                       d_allowed_attempts = q_allowed_attempts exam_settings,
                                       d_passing_percentage = q_passing_percentage exam_settings,
                                       d_enable_analysis_report = (q_enable_analysis_report exam_settings \<noteq> 0),
                                       d_questions = questions_list,
                                       d_answers = (case in_progress_data of Some p \<Rightarrow> p_answers p | None \<Rightarrow> []),
                                       d_question_status =
                                         (case in_progress_data of Some p \<Rightarrow> p_question_status p | None \<Rightarrow> []),
                                       d_time_left =
                                         (case in_progress_data of Some p \<Rightarrow> p_time_left p
                                          | None \<Rightarrow> q_duration exam_settings * 60),
                                       d_attempt_number = attempts_taken + 1\<rparr>
                                 in (case student_data of
                                       None \<Rightarrow> Inl (An_error_occurred TypeError)
                                     | Some s \<Rightarrow> Inr \<lparr>sp_student_name = s_student_name s,
                                         sp_teacher_id = s_teacher_id s, sp_exam_data = exam_data\<rparr>)))))))"

text \<open>
  The handler opens no transaction, and \<^verbatim>\<open>sqlite3\<close> opens none for a
  \<^verbatim>\<open>SELECT\<close>: each of the seven queries reads the store as committed at that
  moment, and another request may commit between two of them. In
  \<open>check_exam_eligibility_at\<close> the queries are numbered from 0 in the order of the
  source, and query \<open>i\<close> reads the store \<open>ds i\<close>.
\<close>

definition check_exam_eligibility_at ::
  "(nat \<Rightarrow> db) \<Rightarrow> (nat \<Rightarrow> nat) \<Rightarrow> string option \<Rightarrow> string option \<Rightarrow> error + start_payload" where
  "check_exam_eligibility_at ds rnd student_id exam_id =
     (case fetchone (questions_of_exam (ds 0) exam_id) of
        None \<Rightarrow> Inl Exam_not_found
      | Some exam_teacher \<Rightarrow>
          (case fetchone [s \<leftarrow> students (ds 1). Some (s_student_id s) = student_id \<and>
                            s_teacher_id s = q_teacher_id exam_teacher] of
             None \<Rightarrow> Inl Student_not_associated
           | Some _ \<Rightarrow>
               (case fetchone (questions_of_exam (ds 2) exam_id) of
                  None \<Rightarrow> Inl Settings_not_retrieved
                | Some exam_settings \<Rightarrow>
                    (let allowed_attempts = q_allowed_attempts exam_settings;
                         attempts_taken = num_attempts (ds 3) student_id exam_id
                     in if attempts_taken \<ge> allowed_attempts
                        then Inl (No_attempts_remaining attempts_taken)
                        else
                          (let student_data = fetchone [s \<leftarrow> students (ds 4). Some (s_student_id s) = student_id];
                               exam_data_rows = real_questions (ds 5) exam_id
                           in if exam_data_rows = [] then Inl Exam_has_no_questions
                              else
                                (let questions_list = shuffle rnd (map to_view exam_data_rows);
                                     in_progress_data = fetchone [p \<leftarrow> in_progress_exams (ds 6).
                                        Some (p_student_id p) = student_id \<and> Some (p_exam_id p) = exam_id];
                                     exam_data = \<lparr>
                                       d_exam_title = q_exam_title exam_settings,
                                       d_school_name = q_school_name exam_settings,
                                       d_duration = q_duration exam_settings,
                                       d_allowed_attempts = q_allowed_attempts exam_settings,
                                       d_passing_percentage = q_passing_percentage exam_settings,
                                       d_enable_analysis_report = (q_enable_analysis_report exam_settings \<noteq> 0),
                                       d_questions = questions_list,
                                       d_answers = (case in_progress_data of Some p \<Rightarrow> p_answers p | None \<Rightarrow> []),
                                       d_question_status =
                                         (case in_progress_data of Some p \<Rightarrow> p_question_status p | None \<Rightarrow> []),
                                       d_time_left =
                                         (case in_progress_data of Some p \<Rightarrow> p_time_left p
                                          | None \<Rightarrow> q_duration exam_settings * 60),
                                       d_attempt_number = attempts_taken + 1\<rparr>
                                 in (case student_data of
                                       None \<Rightarrow> Inl (An_error_occurred TypeError)
                                     | Some s \<Rightarrow> Inr \<lparr>sp_student_name = s_student_name s,
                                         sp_teacher_id = s_teacher_id s, sp_exam_data = exam_data\<rparr>)))))))"

section \<open>POST /api/save-progress\<close>

record save_request =
  sv_student_id :: "string option"
  sv_exam_id :: "string option"
  sv_teacher_id :: "string option"
  sv_answers :: "json_object option"
  sv_time_left :: "int option"
  sv_question_status :: "json_object option"

text \<open>
  Python's truth value of a request field: \<open>None\<close>, the empty string and the empty
  dict are false.
\<close>

definition truthy :: "'a list option \<Rightarrow> bool" where
  "truthy v = (case v of None \<Rightarrow> False | Some x \<Rightarrow> x \<noteq> [])"

text \<open>
  The column \<^verbatim>\<open>time_left\<close> is an SQLite \<^verbatim>\<open>INTEGER\<close>, a signed 64-bit word,
  while the \<open>time_left\<close> of a request is a Python integer of any size: binding one
  outside that range makes \<^verbatim>\<open>c.execute\<close> raise \<^verbatim>\<open>OverflowError\<close>, before
  the statement runs.
\<close>

definition sqlite_integer :: "int \<Rightarrow> bool" where
  "sqlite_integer n = (- (2 ^ 63) \<le> n \<and> n < 2 ^ 63)"

text \<open>
  \<^verbatim>\<open>INSERT OR REPLACE\<close> removes the row that holds the primary key
  \<open>(student_id, exam_id)\<close>, if any, and adds the new one. The connection commits only
  at \<^verbatim>\<open>conn.commit()\<close>; when a statement or the commit raises, the handler
  closes the connection and the store keeps the state it had. Past the guard every
  field is present, so the last branch of the case below is never taken.
\<close>

definition replace_in_progress :: "in_progress_row list \<Rightarrow> in_progress_row \<Rightarrow> in_progress_row list" where
  "replace_in_progress rows new =
     [p \<leftarrow> rows. \<not> (p_student_id p = p_student_id new \<and> p_exam_id p = p_exam_id new)] @ [new]"

definition save_progress :: "db \<Rightarrow> fault option \<Rightarrow> save_request \<Rightarrow> (error + unit) \<times> db" where
  "save_progress d fault req =
     (if \<not> (truthy (sv_student_id req) \<and> truthy (sv_exam_id req) \<and> truthy (sv_teacher_id req) \<and>
             truthy (sv_answers req) \<and> sv_time_left req \<noteq> None \<and> truthy (sv_question_status req))
      then (Inl Invalid_data, d)
      else
        (case (sv_student_id req, sv_exam_id req, sv_teacher_id req,
               sv_answers req, sv_time_left req, sv_question_status req) of
           (Some student_id, Some exam_id, Some teacher_id, Some answers, Some time_left, Some question_status) \<Rightarrow>
             if \<not> sqlite_integer time_left then (Inl (An_error_occurred OverflowError), d)
             else if fault = Some Insert_fails then (Inl (An_error_occurred OperationalError), d)
             else
               (let tx = d\<lparr>in_progress_exams := replace_in_progress (in_progress_exams d)
                            \<lparr>p_student_id = student_id, p_exam_id = exam_id, p_teacher_id = teacher_id,
                             p_answers = answers, p_question_status = question_status,
                             p_time_left = time_left\<rparr>\<rparr>
                in if fault = Some Commit_fails then (Inl (An_error_occurred OperationalError), d)
                   else (Inr (), tx))
         | _ \<Rightarrow> (Inl Invalid_data, d)))"

section \<open>GET /api/questions/by-exam/<exam_id>\<close>

record question_with_key =
  k_question_text :: string
  k_correct_option :: string
  k_options :: json_object
  k_image_url :: "string option"

definition to_keyed :: "question_row \<Rightarrow> question_with_key" where
  "to_keyed q = \<lparr>k_question_text = q_question_text q, k_correct_option = q_correct_option q,
     k_options = q_options q, k_image_url = q_image_url q\<rparr>"

text \<open>
  The handler takes the exam id from the URL and nothing else from the request; it
  always answers 200 with the list it built.
\<close>

definition get_questions_by_exam :: "db \<Rightarrow> string \<Rightarrow> nat \<times> question_with_key list" where
  "get_questions_by_exam d exam_id = (200, map to_keyed (real_questions d (Some exam_id)))"

section \<open>POST /api/submit/exam\<close>

record submit_request =
  sb_exam_id :: "string option"
  sb_student_id :: "string option"
  sb_student_name :: "string option"
  sb_answers :: "json_object option"
  sb_teacher_id :: "string option"

record report_entry =
  e_question_text :: string
  e_options :: json_object
  e_student_answer :: "string option"
  e_correct_answer :: "string option"
  e_is_correct :: bool

record submit_payload =
  score :: int
  analysis_report :: "report_entry list"

text \<open>
  The dict comprehension \<^verbatim>\<open>{row['question_text']: row['correct_option'] for row in
  all_questions}\<close> keeps, for a key that occurs twice, the value of the later row.
\<close>

definition correct_answers_map :: "question_row list \<Rightarrow> string \<Rightarrow> string option" where
  "correct_answers_map all_questions =
     map_of (rev (map (\<lambda>row. (q_question_text row, q_correct_option row)) all_questions))"

text \<open>The grading loop, with its two accumulators.\<close>

fun grade ::
  "json_object \<Rightarrow> (string \<Rightarrow> string option) \<Rightarrow> question_row list \<Rightarrow> int \<Rightarrow> report_entry list
   \<Rightarrow> int \<times> report_entry list" where
  "grade answers cmap [] sc report = (sc, report)"
| "grade answers cmap (question # rest) sc report =
     (let q_text = q_question_text question;
          student_answer_key = map_of answers q_text;
          correct_answer_key = cmap q_text;
          is_correct = (student_answer_key = correct_answer_key)
      in grade answers cmap rest (if is_correct then sc + 1 else sc)
           (report @ [\<lparr>e_question_text = q_text, e_options = q_options question,
                        e_student_answer = student_answer_key,
                        e_correct_answer = correct_answer_key,
                        e_is_correct = is_correct\<rparr>]))"

text \<open>
  \<open>result_id\<close> is \<^verbatim>\<open>str(uuid.uuid4())\<close>. The \<^verbatim>\<open>INSERT\<close> raises
  \<^verbatim>\<open>IntegrityError\<close> when a \<^verbatim>\<open>NOT NULL\<close> column would receive
  \<open>None\<close> or when the primary key \<open>result_id\<close> is already in the table. Without
  \<open>answers\<close> the loop raises at \<^verbatim>\<open>answers.get\<close>.
\<close>

definition submit_exam ::
  "db \<Rightarrow> string \<Rightarrow> fault option \<Rightarrow> submit_request \<Rightarrow> (error + submit_payload) \<times> db" where
  "submit_exam d result_id fault req =
     (let all_questions = real_questions d (sb_exam_id req)
      in if all_questions = [] then (Inl No_questions_to_score, d)
         else
           (case sb_answers req of
              None \<Rightarrow> (Inl (An_error_occurred AttributeError), d)
            | Some answers \<Rightarrow>
                (let (sc, report) = grade answers (correct_answers_map all_questions) all_questions 0 []
                 in (case (sb_exam_id req, sb_student_id req, sb_student_name req, sb_teacher_id req) of
                       (Some exam_id, Some student_id, Some student_name, Some teacher_id) \<Rightarrow>
                         if result_id \<in> set (map r_result_id (results d))
                         then (Inl (An_error_occurred IntegrityError), d)
                         else if fault = Some Insert_fails
                         then (Inl (An_error_occurred OperationalError), d)
                         else
                           (let tx = d\<lparr>results := results d @
                                  [\<lparr>r_result_id = result_id, r_exam_id = exam_id,
                                    r_student_id = student_id, r_teacher_id = teacher_id,
                                    r_student_name = student_name, r_score = sc,
                                    r_answers = answers\<rparr>]\<rparr>
                            in if fault = Some Delete_fails
                               then (Inl (An_error_occurred OperationalError), d)
                               else
                                 (let tx' = tx\<lparr>in_progress_exams :=
                                        [p \<leftarrow> in_progress_exams tx.
                                           \<not> (p_student_id p = student_id \<and> p_exam_id p = exam_id)]\<rparr>
                                  in if fault = Some Commit_fails
                                     then (Inl (An_error_occurred OperationalError), d)
                                     else (Inr \<lparr>score = sc, analysis_report = report\<rparr>, tx')))
                     | _ \<Rightarrow> (Inl (An_error_occurred IntegrityError), d)))))"

section \<open>DELETE /api/question/delete and DELETE /api/student/delete\<close>

text \<open>
  The two handlers that remove rows which the start handler reads. Each answers 200
  when its \<^verbatim>\<open>DELETE\<close> removed a row and 404 when it removed none; a failure
  of the statement or of the commit is answered with 500 and leaves the store as it was.
  Only the question handler validates its fields.
\<close>

datatype deletion = Deleted | Nothing_deleted | Deletion_invalid_data | Deletion_failed exn

fun deletion_status :: "deletion \<Rightarrow> nat" where
  "deletion_status Deleted = 200"
| "deletion_status Nothing_deleted = 404"
| "deletion_status Deletion_invalid_data = 400"
| "deletion_status (Deletion_failed e) = 500"

definition delete_student ::
  "db \<Rightarrow> fault option \<Rightarrow> string option \<Rightarrow> string option \<Rightarrow> deletion \<times> db" where
  "delete_student d fault teacher_id student_id =
     (if fault = Some Delete_fails \<or> fault = Some Commit_fails
      then (Deletion_failed OperationalError, d)
      else
        (let kept = [s \<leftarrow> students d. \<not> (Some (s_student_id s) = student_id \<and>
                                            Some (s_teacher_id s) = teacher_id)]
         in (if length (students d) - length kept = 0 then Nothing_deleted else Deleted,
             d\<lparr>students := kept\<rparr>)))"

definition delete_question ::
  "db \<Rightarrow> fault option \<Rightarrow> string option \<Rightarrow> string option \<Rightarrow> string option \<Rightarrow> deletion \<times> db" where
  "delete_question d fault teacher_id exam_id question_text =
     (if \<not> (truthy teacher_id \<and> truthy exam_id \<and> truthy question_text)
      then (Deletion_invalid_data, d)
      else if fault = Some Delete_fails \<or> fault = Some Commit_fails
      then (Deletion_failed OperationalError, d)
      else
        (let kept = [q \<leftarrow> questions d. \<not> (Some (q_teacher_id q) = teacher_id \<and>
                                             Some (q_exam_id q) = exam_id \<and>
                                             Some (q_question_text q) = question_text)]
         in (if length (questions d) - length kept > 0 then Deleted else Nothing_deleted,
             d\<lparr>questions := kept\<rparr>)))"

section \<open>Runs of the core operations\<close>

text \<open>
  The three operations of the session lifecycle, with what each leaves in the store.
  Starting a session issues no write.
\<close>

datatype operation =
    Start "string option" "string option"
  | Save "fault option" save_request
  | Submit string "fault option" submit_request

fun apply_operation :: "db \<Rightarrow> operation \<Rightarrow> db" where
  "apply_operation d (Start student_id exam_id) = d"
| "apply_operation d (Save fault req) = snd (save_progress d fault req)"
| "apply_operation d (Submit result_id fault req) = snd (submit_exam d result_id fault req)"

fun run :: "db \<Rightarrow> operation list \<Rightarrow> db" where
  "run d [] = d"
| "run d (x # ops) = run (apply_operation d x) ops"

text \<open>
  A student is eligible when the start handler answers 200 (the random source plays no
  part in that). In a gated run every submission is made in a state in which its
  student is eligible for its exam.
\<close>

definition eligible :: "db \<Rightarrow> string option \<Rightarrow> string option \<Rightarrow> bool" where
  "eligible d student_id exam_id = (\<not> isl (check_exam_eligibility d (\<lambda>i. 0) student_id exam_id))"

fun gated_run :: "db \<Rightarrow> operation list \<Rightarrow> bool" where
  "gated_run d [] = True"
| "gated_run d (Submit result_id fault req # ops) =
     (eligible d (sb_student_id req) (sb_exam_id req) \<and>
      gated_run (apply_operation d (Submit result_id fault req)) ops)"
| "gated_run d (x # ops) = gated_run (apply_operation d x) ops"

text \<open>
  The settings of an exam are kept in the row of the question table whose text is
  \<^verbatim>\<open>placeholder\<close>: the settings handler writes that row and no other, and the
  upload handlers copy its values into every question row they insert. The primary key
  leaves at most one such row per exam. The attempt limit of an exam is the
  \<open>allowed_attempts\<close> of that row; an exam without that row has no limit to keep.
\<close>

definition exam_spec :: "db \<Rightarrow> string \<Rightarrow> question_row option" where
  "exam_spec d exam_id =
     fetchone [q \<leftarrow> questions d. q_exam_id q = exam_id \<and> q_question_text q = ''placeholder'']"

definition limit_ok :: "db \<Rightarrow> string \<Rightarrow> string \<Rightarrow> bool" where
  "limit_ok d student_id exam_id =
     (case exam_spec d exam_id of
        None \<Rightarrow> True
      | Some spec \<Rightarrow>
          num_attempts d (Some student_id) (Some exam_id) \<le> q_allowed_attempts spec)"

text \<open>
  The start handler reads \<open>allowed_attempts\<close> from the first row of the exam that its
  query returns, whichever row that is. It enforces the exam's limit when that row
  carries the \<open>allowed_attempts\<close> of the settings row.
\<close>

definition gate_reads_spec :: "db \<Rightarrow> string \<Rightarrow> bool" where
  "gate_reads_spec d exam_id =
     (case exam_spec d exam_id of
        None \<Rightarrow> True
      | Some spec \<Rightarrow>
          (case fetchone (questions_of_exam d (Some exam_id)) of
             None \<Rightarrow> False
           | Some exam_settings \<Rightarrow> q_allowed_attempts exam_settings = q_allowed_attempts spec))"

text \<open>An operation touches a session when it can write the in-progress row of its key.\<close>

fun touches :: "string \<Rightarrow> string \<Rightarrow> operation \<Rightarrow> bool" where
  "touches student_id exam_id (Start s e) = False"
| "touches student_id exam_id (Save fault req) =
     (sv_student_id req = Some student_id \<and> sv_exam_id req = Some exam_id)"
| "touches student_id exam_id (Submit result_id fault req) =
     (sb_student_id req = Some student_id \<and> sb_exam_id req = Some exam_id)"

definition in_progress_of :: "db \<Rightarrow> string \<Rightarrow> string \<Rightarrow> in_progress_row list" where
  "in_progress_of d student_id exam_id =
     [p \<leftarrow> in_progress_exams d. p_student_id p = student_id \<and> p_exam_id p = exam_id]"

section \<open>A small store\<close>

text \<open>
  One teacher, one student, one exam with its settings row and two questions (Q1 with
  key A, Q2 with key B), one attempt allowed.
\<close>

definition settings_row :: question_row where
  "settings_row = \<lparr>q_exam_id = ''E1'', q_teacher_id = ''T1'', q_question_text = ''placeholder'',
     q_correct_option = ''A'', q_options = [], q_exam_title = ''Quiz'',
     q_school_name = Some ''School'', q_duration = 30, q_allowed_attempts = 1,
     q_passing_percentage = 40, q_image_url = None, q_enable_analysis_report = 0\<rparr>"

definition q1_row :: question_row where
  "q1_row = settings_row\<lparr>q_question_text := ''Q1'', q_correct_option := ''A'',
     q_options := [(''A'', ''one''), (''B'', ''two'')]\<rparr>"

definition q2_row :: question_row where
  "q2_row = settings_row\<lparr>q_question_text := ''Q2'', q_correct_option := ''B'',
     q_options := [(''B'', ''three''), (''C'', ''four'')]\<rparr>"

definition db0 :: db where
  "db0 = \<lparr>students = [\<lparr>s_student_id = ''S1'', s_teacher_id = ''T1'', s_student_name = ''Ann''\<rparr>],
     questions = [settings_row, q1_row, q2_row], results = [], in_progress_exams = []\<rparr>"

definition submit0 :: submit_request where
  "submit0 = \<lparr>sb_exam_id = Some ''E1'', sb_student_id = Some ''S1'',
     sb_student_name = Some ''Ann'', sb_answers = Some [(''Q1'', ''A''), (''Q2'', ''C'')],
     sb_teacher_id = Some ''T1''\<rparr>"

definition save0 :: save_request where
  "save0 = \<lparr>sv_student_id = Some ''S1'', sv_exam_id = Some ''E1'', sv_teacher_id = Some ''T1'',
     sv_answers = Some [(''Q1'', ''A'')], sv_time_left = Some 300,
     sv_question_status = Some [(''Q1'', ''answered'')]\<rparr>"

text \<open>The same store once the student has saved progress with 300 seconds left.\<close>

definition db1 :: db where
  "db1 = db0\<lparr>in_progress_exams := [\<lparr>p_student_id = ''S1'', p_exam_id = ''E1'', p_teacher_id = ''T1'',
     p_answers = [(''Q1'', ''A'')], p_question_status = [(''Q1'', ''answered'')], p_time_left = 300\<rparr>]\<rparr>"

text \<open>The small store once the student has submitted \<open>submit0\<close> under the id r1.\<close>

definition db2 :: db where
  "db2 = db0\<lparr>results := [\<lparr>r_result_id = ''r1'', r_exam_id = ''E1'', r_student_id = ''S1'',
     r_teacher_id = ''T1'', r_student_name = ''Ann'', r_score = 1,
     r_answers = [(''Q1'', ''A''), (''Q2'', ''C'')]\<rparr>]\<rparr>"

text \<open>A later snapshot of the same session, with another answer and less time left.\<close>

definition save1 :: save_request where
  "save1 = \<lparr>sv_student_id = Some ''S1'', sv_exam_id = Some ''E1'', sv_teacher_id = Some ''T1'',
     sv_answers = Some [(''Q2'', ''B'')], sv_time_left = Some 120,
     sv_question_status = Some [(''Q2'', ''answered'')]\<rparr>"

text \<open>
  The small store with its questions uploaded while three attempts were allowed and its
  settings saved again since, with one attempt. The rows are in the order of the
  primary-key index: Q1 and Q2 before placeholder.
\<close>

definition db_stale :: db where
  "db_stale = db0\<lparr>questions := [q1_row\<lparr>q_allowed_attempts := 3\<rparr>,
     q2_row\<lparr>q_allowed_attempts := 3\<rparr>, settings_row]\<rparr>"

text \<open>
  The exam with its settings row only, as the settings handler creates it, and the
  stores read by a start whose teacher deletes that row between the second and the
  third query.
\<close>

definition db_settings :: db where
  "db_settings = db0\<lparr>questions := [settings_row]\<rparr>"

definition question_deleted_between :: "nat \<Rightarrow> db" where
  "question_deleted_between i =
     (if i < 2 then db_settings
      else snd (delete_question db_settings None (Some ''T1'') (Some ''E1'') (Some ''placeholder'')))"

text \<open>
  The stores read by a start on the small store whose teacher deletes the student
  between the fourth and the fifth query.
\<close>

definition student_deleted_between :: "nat \<Rightarrow> db" where
  "student_deleted_between i =
     (if i < 4 then db0 else snd (delete_student db0 None (Some ''T1'') (Some ''S1'')))"
section \<open>Auxiliary facts\<close>

subsection \<open>Queries\<close>

lemma fetchone_None_iff: "fetchone xs = None \<longleftrightarrow> xs = []"
  by (cases xs) (simp_all add: fetchone_def)

lemma fetchone_Some_iff: "fetchone xs = Some x \<longleftrightarrow> (\<exists>ys. xs = x # ys)"
  by (cases xs) (auto simp: fetchone_def)

lemma fetchone_map: "fetchone (map f xs) = map_option f (fetchone xs)"
  by (cases xs) (simp_all add: fetchone_def)

lemma in_progress_lookup:
  "[r \<leftarrow> in_progress_exams d. Some (p_student_id r) = Some s \<and> Some (p_exam_id r) = Some e] = in_progress_of d s e"
  by (simp add: in_progress_of_def)

subsection \<open>The shuffle is a permutation\<close>

lemma shuffle_loop_mset: "m < length x \<Longrightarrow> mset (shuffle_loop rnd m x) = mset x"
proof (induction m arbitrary: x)
  case 0
  then show ?case by simp
next
  case (Suc m)
  define j where "j = rnd (Suc m) mod (Suc m + 1)"
  have "j < Suc m + 1" unfolding j_def by simp
  with Suc.prems have j: "j < length x" by simp
  have len: "m < length (x[Suc m := x ! j, j := x ! Suc m])" using Suc.prems by simp
  have "mset (x[Suc m := x ! j, j := x ! Suc m]) = mset x"
    using Suc.prems j by (simp add: mset_swap)
  with Suc.IH[OF len] show ?case by (simp add: Let_def j_def)
qed

lemma shuffle_mset: "mset (shuffle rnd x) = mset x"
  by (cases x) (simp_all add: shuffle_def shuffle_loop_mset)

lemma shuffle_two: "shuffle (\<lambda>i. 0) [x, y] = [y, x]"
  by (simp add: shuffle_def)

subsection \<open>The start handler\<close>

lemma student_data_found:
  assumes "fetchone [s \<leftarrow> ss. Some (s_student_id s) = sid \<and> s_teacher_id s = t] = Some a"
  shows "\<exists>b. fetchone [s \<leftarrow> ss. Some (s_student_id s) = sid] = Some b"
proof -
  obtain ys where ys: "[s \<leftarrow> ss. Some (s_student_id s) = sid \<and> s_teacher_id s = t] = a # ys"
    using assms by (auto simp: fetchone_Some_iff)
  have "a \<in> set [s \<leftarrow> ss. Some (s_student_id s) = sid \<and> s_teacher_id s = t]"
    unfolding ys by simp
  then have "a \<in> set [s \<leftarrow> ss. Some (s_student_id s) = sid]" by simp
  then show ?thesis
    by (cases "[s \<leftarrow> ss. Some (s_student_id s) = sid]") (simp_all add: fetchone_def)
qed

lemma start_never_settings:
  "check_exam_eligibility d rnd sid eid \<noteq> Inl Settings_not_retrieved"
  by (auto simp: check_exam_eligibility_def Let_def split: option.splits)

lemma start_never_type_error:
  "check_exam_eligibility d rnd sid eid \<noteq> Inl (An_error_occurred e)"
  by (auto simp: check_exam_eligibility_def Let_def split: option.splits dest: student_data_found)

lemma start_no_exam:
  "fetchone (questions_of_exam d eid) = None \<Longrightarrow> check_exam_eligibility d rnd sid eid = Inl Exam_not_found"
  by (simp add: check_exam_eligibility_def)

lemma start_no_student:
  "fetchone (questions_of_exam d eid) = Some spec \<Longrightarrow>
   fetchone [s \<leftarrow> students d. Some (s_student_id s) = sid \<and> s_teacher_id s = q_teacher_id spec] = None \<Longrightarrow>
   check_exam_eligibility d rnd sid eid = Inl Student_not_associated"
  by (simp add: check_exam_eligibility_def)

lemma start_exhausted:
  "fetchone (questions_of_exam d eid) = Some spec \<Longrightarrow>
   fetchone [s \<leftarrow> students d. Some (s_student_id s) = sid \<and> s_teacher_id s = q_teacher_id spec] = Some a \<Longrightarrow>
   q_allowed_attempts spec \<le> num_attempts d sid eid \<Longrightarrow>
   check_exam_eligibility d rnd sid eid = Inl (No_attempts_remaining (num_attempts d sid eid))"
  by (simp add: check_exam_eligibility_def)

lemma start_no_questions:
  "fetchone (questions_of_exam d eid) = Some spec \<Longrightarrow>
   fetchone [s \<leftarrow> students d. Some (s_student_id s) = sid \<and> s_teacher_id s = q_teacher_id spec] = Some a \<Longrightarrow>
   num_attempts d sid eid < q_allowed_attempts spec \<Longrightarrow>
   real_questions d eid = [] \<Longrightarrow>
   check_exam_eligibility d rnd sid eid = Inl Exam_has_no_questions"
  by (simp add: check_exam_eligibility_def)

lemma start_passes:
  "fetchone (questions_of_exam d eid) = Some spec \<Longrightarrow>
   fetchone [s \<leftarrow> students d. Some (s_student_id s) = sid \<and> s_teacher_id s = q_teacher_id spec] = Some a \<Longrightarrow>
   num_attempts d sid eid < q_allowed_attempts spec \<Longrightarrow>
   real_questions d eid \<noteq> [] \<Longrightarrow>
   \<exists>p. check_exam_eligibility d rnd sid eid = Inr p"
  by (auto simp: check_exam_eligibility_def Let_def split: option.splits dest: student_data_found)

lemma start_InrD:
  assumes "check_exam_eligibility d rnd sid eid = Inr p"
  shows "\<exists>spec. fetchone (questions_of_exam d eid) = Some spec
     \<and> num_attempts d sid eid < q_allowed_attempts spec
     \<and> real_questions d eid \<noteq> []
     \<and> d_questions (sp_exam_data p) = shuffle rnd (map to_view (real_questions d eid))
     \<and> d_duration (sp_exam_data p) = q_duration spec
     \<and> d_attempt_number (sp_exam_data p) = num_attempts d sid eid + 1
     \<and> (case fetchone [r \<leftarrow> in_progress_exams d. Some (p_student_id r) = sid \<and> Some (p_exam_id r) = eid] of
          Some r \<Rightarrow> d_answers (sp_exam_data p) = p_answers r
                  \<and> d_question_status (sp_exam_data p) = p_question_status r
                  \<and> d_time_left (sp_exam_data p) = p_time_left r
        | None \<Rightarrow> d_answers (sp_exam_data p) = [] \<and> d_question_status (sp_exam_data p) = []
                  \<and> d_time_left (sp_exam_data p) = q_duration spec * 60)"
  using assms
  by (auto simp: check_exam_eligibility_def Let_def split: option.splits if_splits)

lemma start_refuses_at_limit:
  assumes "fetchone (questions_of_exam d eid) = Some spec"
    and "q_allowed_attempts spec \<le> num_attempts d sid eid"
  shows "isl (check_exam_eligibility d rnd sid eid)"
  using assms by (auto simp: check_exam_eligibility_def Let_def split: option.splits)

lemma eligible_bound:
  assumes "eligible d sid eid"
  shows "\<exists>spec. fetchone (questions_of_exam d eid) = Some spec \<and> num_attempts d sid eid < q_allowed_attempts spec"
proof -
  from assms obtain p where "check_exam_eligibility d (\<lambda>i. 0) sid eid = Inr p"
    unfolding eligible_def by (cases "check_exam_eligibility d (\<lambda>i. 0) sid eid") auto
  from start_InrD[OF this] show ?thesis by blast
qed

lemma eligibleI:
  assumes "fetchone (questions_of_exam d eid) = Some spec"
    and "fetchone [s \<leftarrow> students d. Some (s_student_id s) = sid \<and> s_teacher_id s = q_teacher_id spec] = Some a"
    and "num_attempts d sid eid < q_allowed_attempts spec"
    and "real_questions d eid \<noteq> []"
  shows "eligible d sid eid"
  using start_passes[OF assms, of "\<lambda>i. 0"] by (auto simp: eligible_def)

lemma start_isl_rnd:
  "isl (check_exam_eligibility d rnd sid eid) = isl (check_exam_eligibility d rnd' sid eid)"
  by (auto simp: check_exam_eligibility_def Let_def split: option.splits)

lemma eligible_iff: "eligible d sid eid \<longleftrightarrow> \<not> isl (check_exam_eligibility d rnd sid eid)"
  unfolding eligible_def using start_isl_rnd[of d "\<lambda>i. 0" sid eid rnd] by simp

lemma start_questions_mset:
  assumes "check_exam_eligibility d rnd sid eid = Inr p"
  shows "mset (d_questions (sp_exam_data p)) = mset (map to_view (real_questions d eid))"
  using start_InrD[OF assms] by (auto simp: shuffle_mset)

lemma questions_of_exam_key:
  "questions_of_exam (d\<lparr>questions := map (\<lambda>q. q\<lparr>q_correct_option := key q\<rparr>) (questions d)\<rparr>) eid =
   map (\<lambda>q. q\<lparr>q_correct_option := key q\<rparr>) (questions_of_exam d eid)"
  by (simp add: questions_of_exam_def filter_map comp_def)

lemma real_questions_key:
  "real_questions (d\<lparr>questions := map (\<lambda>q. q\<lparr>q_correct_option := key q\<rparr>) (questions d)\<rparr>) eid =
   map (\<lambda>q. q\<lparr>q_correct_option := key q\<rparr>) (real_questions d eid)"
  by (simp add: real_questions_def filter_map comp_def)

lemma to_view_key: "to_view (q\<lparr>q_correct_option := k\<rparr>) = to_view q"
  by (simp add: to_view_def)

lemma num_attempts_questions: "num_attempts (d\<lparr>questions := qs\<rparr>) sid eid = num_attempts d sid eid"
  by (simp add: num_attempts_def)

lemma start_key_independent:
  "check_exam_eligibility (d\<lparr>questions := map (\<lambda>q. q\<lparr>q_correct_option := key q\<rparr>) (questions d)\<rparr>) rnd sid eid =
   check_exam_eligibility d rnd sid eid"
  unfolding check_exam_eligibility_def questions_of_exam_key real_questions_key fetchone_map
    num_attempts_questions
  by (cases "fetchone (questions_of_exam d eid)")
     (auto simp: to_view_key comp_def Let_def split: option.splits)

subsection \<open>The start handler, query by query\<close>

lemma start_at_one_store:
  "check_exam_eligibility_at (\<lambda>i. d) rnd sid eid = check_exam_eligibility d rnd sid eid"
  by (simp add: check_exam_eligibility_at_def check_exam_eligibility_def)

lemma start_at_no_exam:
  "fetchone (questions_of_exam (ds 0) eid) = None \<Longrightarrow>
   check_exam_eligibility_at ds rnd sid eid = Inl Exam_not_found"
  by (simp add: check_exam_eligibility_at_def)

lemma start_at_no_student:
  "fetchone (questions_of_exam (ds 0) eid) = Some t \<Longrightarrow>
   fetchone [st \<leftarrow> students (ds 1). Some (s_student_id st) = sid \<and> s_teacher_id st = q_teacher_id t] = None \<Longrightarrow>
   check_exam_eligibility_at ds rnd sid eid = Inl Student_not_associated"
  by (simp add: check_exam_eligibility_at_def)

lemma start_at_no_settings:
  "fetchone (questions_of_exam (ds 0) eid) = Some t \<Longrightarrow>
   fetchone [st \<leftarrow> students (ds 1). Some (s_student_id st) = sid \<and> s_teacher_id st = q_teacher_id t] = Some a \<Longrightarrow>
   fetchone (questions_of_exam (ds 2) eid) = None \<Longrightarrow>
   check_exam_eligibility_at ds rnd sid eid = Inl Settings_not_retrieved"
  by (simp add: check_exam_eligibility_at_def)

lemma start_at_exhausted:
  "fetchone (questions_of_exam (ds 0) eid) = Some t \<Longrightarrow>
   fetchone [st \<leftarrow> students (ds 1). Some (s_student_id st) = sid \<and> s_teacher_id st = q_teacher_id t] = Some a \<Longrightarrow>
   fetchone (questions_of_exam (ds 2) eid) = Some spec \<Longrightarrow>
   q_allowed_attempts spec \<le> num_attempts (ds 3) sid eid \<Longrightarrow>
   check_exam_eligibility_at ds rnd sid eid = Inl (No_attempts_remaining (num_attempts (ds 3) sid eid))"
  by (simp add: check_exam_eligibility_at_def)

lemma start_at_no_questions:
  "fetchone (questions_of_exam (ds 0) eid) = Some t \<Longrightarrow>
   fetchone [st \<leftarrow> students (ds 1). Some (s_student_id st) = sid \<and> s_teacher_id st = q_teacher_id t] = Some a \<Longrightarrow>
   fetchone (questions_of_exam (ds 2) eid) = Some spec \<Longrightarrow>
   num_attempts (ds 3) sid eid < q_allowed_attempts spec \<Longrightarrow>
   real_questions (ds 5) eid = [] \<Longrightarrow>
   check_exam_eligibility_at ds rnd sid eid = Inl Exam_has_no_questions"
  by (simp add: check_exam_eligibility_at_def)

lemma start_at_type_error:
  "fetchone (questions_of_exam (ds 0) eid) = Some t \<Longrightarrow>
   fetchone [st \<leftarrow> students (ds 1). Some (s_student_id st) = sid \<and> s_teacher_id st = q_teacher_id t] = Some a \<Longrightarrow>
   fetchone (questions_of_exam (ds 2) eid) = Some spec \<Longrightarrow>
   num_attempts (ds 3) sid eid < q_allowed_attempts spec \<Longrightarrow>
   real_questions (ds 5) eid \<noteq> [] \<Longrightarrow>
   fetchone [st \<leftarrow> students (ds 4). Some (s_student_id st) = sid] = None \<Longrightarrow>
   check_exam_eligibility_at ds rnd sid eid = Inl (An_error_occurred TypeError)"
  by (simp add: check_exam_eligibility_at_def Let_def)

lemma start_at_passes:
  "fetchone (questions_of_exam (ds 0) eid) = Some t \<Longrightarrow>
   fetchone [st \<leftarrow> students (ds 1). Some (s_student_id st) = sid \<and> s_teacher_id st = q_teacher_id t] = Some a \<Longrightarrow>
   fetchone (questions_of_exam (ds 2) eid) = Some spec \<Longrightarrow>
   num_attempts (ds 3) sid eid < q_allowed_attempts spec \<Longrightarrow>
   real_questions (ds 5) eid \<noteq> [] \<Longrightarrow>
   fetchone [st \<leftarrow> students (ds 4). Some (s_student_id st) = sid] \<noteq> None \<Longrightarrow>
   \<exists>p. check_exam_eligibility_at ds rnd sid eid = Inr p"
  by (auto simp: check_exam_eligibility_at_def Let_def)

subsection \<open>The primary key of the question table\<close>

lemma real_questions_distinct:
  assumes "pk_questions d"
  shows "distinct (map q_question_text (real_questions d eid))"
proof -
  let ?f = "\<lambda>q. (q_exam_id q, q_question_text q)"
  have "distinct (map ?f (real_questions d eid))"
    using assms unfolding pk_questions_def real_questions_def by (rule distinct_map_filter)
  then have d: "distinct (real_questions d eid)" and i: "inj_on ?f (set (real_questions d eid))"
    by (simp_all add: distinct_map)
  have "inj_on q_question_text (set (real_questions d eid))"
  proof (rule inj_onI)
    fix x y assume x: "x \<in> set (real_questions d eid)" and y: "y \<in> set (real_questions d eid)"
      and t: "q_question_text x = q_question_text y"
    from x y have "Some (q_exam_id x) = eid" "Some (q_exam_id y) = eid"
      by (simp_all add: real_questions_def)
    then have "q_exam_id x = q_exam_id y" by auto
    with t have "?f x = ?f y" by simp
    with i x y show "x = y" by (auto dest: inj_onD)
  qed
  with d show ?thesis by (simp add: distinct_map)
qed

lemma views_distinct:
  assumes "pk_questions d"
  shows "distinct (map to_view (real_questions d eid))"
proof -
  have h: "map v_question_text (map to_view (real_questions d eid)) = map q_question_text (real_questions d eid)"
    by (simp add: to_view_def comp_def)
  have "distinct (map v_question_text (map to_view (real_questions d eid)))"
    unfolding h using assms by (rule real_questions_distinct)
  then show ?thesis using distinct_map by blast
qed

lemma correct_answers_map_key:
  assumes "distinct (map q_question_text qs)" and "q \<in> set qs"
  shows "correct_answers_map qs (q_question_text q) = Some (q_correct_option q)"
proof -
  let ?ps = "rev (map (\<lambda>row. (q_question_text row, q_correct_option row)) qs)"
  have "distinct (map fst ?ps)" using assms(1) by (simp add: rev_map[symmetric] comp_def)
  moreover have "(q_question_text q, q_correct_option q) \<in> set ?ps" using assms(2) by auto
  ultimately show ?thesis unfolding correct_answers_map_def by (rule map_of_is_SomeI)
qed

subsection \<open>The grading loop\<close>

lemma grade_eq:
  "grade a cmap qs sc rep =
     (sc + int (length [q \<leftarrow> qs. map_of a (q_question_text q) = cmap (q_question_text q)]),
      rep @ map (\<lambda>q. \<lparr>e_question_text = q_question_text q, e_options = q_options q,
                       e_student_answer = map_of a (q_question_text q),
                       e_correct_answer = cmap (q_question_text q),
                       e_is_correct = (map_of a (q_question_text q) = cmap (q_question_text q))\<rparr>) qs)"
  by (induction qs arbitrary: sc rep) (simp_all add: Let_def)

lemma grade_lookup_cong:
  assumes "\<forall>q \<in> set qs. map_of a1 (q_question_text q) = map_of a2 (q_question_text q)"
  shows "grade a1 cmap qs sc rep = grade a2 cmap qs sc rep"
  using assms by (induction qs arbitrary: sc rep) (simp_all add: Let_def)

lemma grade_flag:
  "grade a cmap (map (\<lambda>q. q\<lparr>q_enable_analysis_report := flag q\<rparr>) qs) sc rep = grade a cmap qs sc rep"
  by (induction qs arbitrary: sc rep) (simp_all add: Let_def)

lemma grade_score_mset:
  assumes "distinct (map q_question_text rq)"
  shows "fst (grade a (correct_answers_map rq) rq 0 []) =
     int (size (filter_mset (\<lambda>q. map_of a (q_question_text q) = Some (q_correct_option q)) (mset rq)))"
proof -
  have "[q \<leftarrow> rq. map_of a (q_question_text q) = correct_answers_map rq (q_question_text q)]
      = [q \<leftarrow> rq. map_of a (q_question_text q) = Some (q_correct_option q)]"
    by (rule filter_cong) (simp_all add: correct_answers_map_key[OF assms])
  then have "fst (grade a (correct_answers_map rq) rq 0 []) =
      int (length [q \<leftarrow> rq. map_of a (q_question_text q) = Some (q_correct_option q)])"
    by (simp add: grade_eq)
  also have "\<dots> = int (size (filter_mset (\<lambda>q. map_of a (q_question_text q) = Some (q_correct_option q)) (mset rq)))"
    by (metis mset_filter size_mset)
  finally show ?thesis .
qed

lemma correct_answers_map_flag:
  "correct_answers_map (map (\<lambda>q. q\<lparr>q_enable_analysis_report := flag q\<rparr>) qs) = correct_answers_map qs"
  by (simp add: correct_answers_map_def comp_def)

lemma real_questions_flag:
  "real_questions (d\<lparr>questions := map (\<lambda>q. q\<lparr>q_enable_analysis_report := flag q\<rparr>) (questions d)\<rparr>) eid =
   map (\<lambda>q. q\<lparr>q_enable_analysis_report := flag q\<rparr>) (real_questions d eid)"
  by (simp add: real_questions_def filter_map comp_def)

subsection \<open>The submit handler\<close>

lemma submit_InrD:
  assumes "submit_exam d rid fault req = (Inr p, d')"
  shows "\<exists>e s n t a. sb_exam_id req = Some e \<and> sb_student_id req = Some s \<and> sb_student_name req = Some n
     \<and> sb_teacher_id req = Some t \<and> sb_answers req = Some a
     \<and> real_questions d (Some e) \<noteq> [] \<and> rid \<notin> set (map r_result_id (results d)) \<and> fault = None
     \<and> p = \<lparr>score = fst (grade a (correct_answers_map (real_questions d (Some e))) (real_questions d (Some e)) 0 []),
            analysis_report = snd (grade a (correct_answers_map (real_questions d (Some e))) (real_questions d (Some e)) 0 [])\<rparr>
     \<and> d' = d\<lparr>results := results d @ [\<lparr>r_result_id = rid, r_exam_id = e, r_student_id = s, r_teacher_id = t,
                 r_student_name = n, r_score = score p, r_answers = a\<rparr>],
              in_progress_exams := [r \<leftarrow> in_progress_exams d. \<not> (p_student_id r = s \<and> p_exam_id r = e)]\<rparr>"
proof (cases fault)
  case None
  with assms show ?thesis
    by (auto simp: submit_exam_def Let_def split: option.splits if_splits prod.splits)
next
  case (Some f)
  with assms show ?thesis
    by (cases f) (auto simp: submit_exam_def Let_def split: option.splits if_splits prod.splits)
qed

lemma submit_InlD:
  assumes "fst (submit_exam d rid fault req) = Inl err"
  shows "snd (submit_exam d rid fault req) = d \<and> status err = 500"
  using assms
  by (auto simp: submit_exam_def Let_def split: option.splits if_splits prod.splits)

lemma submit_ok:
  assumes "sb_exam_id req = Some e" "sb_student_id req = Some s" "sb_student_name req = Some n"
    "sb_teacher_id req = Some t" "sb_answers req = Some a"
    "real_questions d (Some e) \<noteq> []" "rid \<notin> set (map r_result_id (results d))"
  shows "\<exists>p d'. submit_exam d rid None req = (Inr p, d')"
  using assms by (auto simp: submit_exam_def Let_def split: prod.splits)

lemma submit_fault_fails: "isl (fst (submit_exam d rid (Some f) req))"
  by (cases f) (auto simp: submit_exam_def Let_def split: option.splits prod.splits)

lemma submit_answers_cong:
  assumes "\<forall>q \<in> set (real_questions d (sb_exam_id req)). map_of a1 (q_question_text q) = map_of a2 (q_question_text q)"
  shows "fst (submit_exam d rid fault (req\<lparr>sb_answers := Some a1\<rparr>)) =
         fst (submit_exam d rid fault (req\<lparr>sb_answers := Some a2\<rparr>))"
  using grade_lookup_cong[OF assms]
  by (auto simp: submit_exam_def Let_def split: option.splits prod.splits)

lemma submit_isl_answers:
  "isl (fst (submit_exam d rid fault (req\<lparr>sb_answers := Some a1\<rparr>))) =
   isl (fst (submit_exam d rid fault (req\<lparr>sb_answers := Some a2\<rparr>)))"
  by (auto simp: submit_exam_def Let_def split: option.splits prod.splits)

lemma submit_score_count:
  assumes pk: "pk_questions d" and ok: "fst (submit_exam d rid fault req) = Inr p"
  shows "\<exists>a. sb_answers req = Some a \<and>
     score p = int (length [q \<leftarrow> real_questions d (sb_exam_id req).
                              map_of a (q_question_text q) = Some (q_correct_option q)])"
proof -
  obtain d' where "submit_exam d rid fault req = (Inr p, d')" using ok by (cases "submit_exam d rid fault req") auto
  from submit_InrD[OF this] obtain e a where e: "sb_exam_id req = Some e" and a: "sb_answers req = Some a"
    and p: "p = \<lparr>score = fst (grade a (correct_answers_map (real_questions d (Some e))) (real_questions d (Some e)) 0 []),
            analysis_report = snd (grade a (correct_answers_map (real_questions d (Some e))) (real_questions d (Some e)) 0 [])\<rparr>"
    by blast
  let ?rq = "real_questions d (Some e)"
  have key: "\<And>q. q \<in> set ?rq \<Longrightarrow> correct_answers_map ?rq (q_question_text q) = Some (q_correct_option q)"
    using correct_answers_map_key[OF real_questions_distinct[OF pk]] by blast
  have "[q \<leftarrow> ?rq. map_of a (q_question_text q) = correct_answers_map ?rq (q_question_text q)]
      = [q \<leftarrow> ?rq. map_of a (q_question_text q) = Some (q_correct_option q)]"
    by (rule filter_cong) (simp_all add: key)
  then have "score p = int (length [q \<leftarrow> ?rq. map_of a (q_question_text q) = Some (q_correct_option q)])"
    by (simp add: p grade_eq)
  with a e show ?thesis by simp
qed

lemma submit_flag:
  "fst (submit_exam (d\<lparr>questions := map (\<lambda>q. q\<lparr>q_enable_analysis_report := flag q\<rparr>) (questions d)\<rparr>) rid fault req) =
   fst (submit_exam d rid fault req)"
  by (auto simp: submit_exam_def Let_def real_questions_flag correct_answers_map_flag grade_flag
           split: option.splits prod.splits)

lemma submit_report_rows:
  assumes pk: "pk_questions d" and ok: "fst (submit_exam d rid fault req) = Inr p"
  shows "\<exists>a. sb_answers req = Some a \<and>
     analysis_report p = map (\<lambda>q. \<lparr>e_question_text = q_question_text q, e_options = q_options q,
         e_student_answer = map_of a (q_question_text q),
         e_correct_answer = Some (q_correct_option q),
         e_is_correct = (map_of a (q_question_text q) = Some (q_correct_option q))\<rparr>)
       (real_questions d (sb_exam_id req))"
proof -
  obtain d' where "submit_exam d rid fault req = (Inr p, d')" using ok by (cases "submit_exam d rid fault req") auto
  from submit_InrD[OF this] obtain e a where e: "sb_exam_id req = Some e" and a: "sb_answers req = Some a"
    and p: "p = \<lparr>score = fst (grade a (correct_answers_map (real_questions d (Some e))) (real_questions d (Some e)) 0 []),
            analysis_report = snd (grade a (correct_answers_map (real_questions d (Some e))) (real_questions d (Some e)) 0 [])\<rparr>"
    by blast
  let ?rq = "real_questions d (Some e)"
  have key: "\<And>q. q \<in> set ?rq \<Longrightarrow> correct_answers_map ?rq (q_question_text q) = Some (q_correct_option q)"
    using correct_answers_map_key[OF real_questions_distinct[OF pk]] by blast
  have "analysis_report p = map (\<lambda>q. \<lparr>e_question_text = q_question_text q, e_options = q_options q,
         e_student_answer = map_of a (q_question_text q),
         e_correct_answer = Some (q_correct_option q),
         e_is_correct = (map_of a (q_question_text q) = Some (q_correct_option q))\<rparr>) ?rq"
    by (simp add: p grade_eq key cong: map_cong)
  with a e show ?thesis by simp
qed

lemma submit_exam_tables:
  "questions (snd (submit_exam d rid fault req)) = questions d
   \<and> students (snd (submit_exam d rid fault req)) = students d"
  by (auto simp: submit_exam_def Let_def split: option.splits prod.splits)

lemma num_attempts_submit_ok:
  assumes "submit_exam d rid fault req = (Inr p, d')"
  shows "num_attempts d' sid eid =
     num_attempts d sid eid + (if sid = sb_student_id req \<and> eid = sb_exam_id req then 1 else 0)"
proof -
  from submit_InrD[OF assms] obtain e s n t a where
    f: "sb_exam_id req = Some e" "sb_student_id req = Some s"
    and d': "d' = d\<lparr>results := results d @ [\<lparr>r_result_id = rid, r_exam_id = e, r_student_id = s, r_teacher_id = t,
                 r_student_name = n, r_score = score p, r_answers = a\<rparr>],
              in_progress_exams := [r \<leftarrow> in_progress_exams d. \<not> (p_student_id r = s \<and> p_exam_id r = e)]\<rparr>"
    by blast
  show ?thesis by (auto simp: d' f num_attempts_def)
qed

lemma num_attempts_submit_le:
  "num_attempts (snd (submit_exam d rid fault req)) sid eid \<le>
     num_attempts d sid eid + (if sid = sb_student_id req \<and> eid = sb_exam_id req then 1 else 0)"
proof (cases "fst (submit_exam d rid fault req)")
  case (Inl err)
  then have "snd (submit_exam d rid fault req) = d" by (simp add: submit_InlD)
  then show ?thesis by simp
next
  case (Inr p)
  then have "submit_exam d rid fault req = (Inr p, snd (submit_exam d rid fault req))"
    by (metis prod.collapse)
  from num_attempts_submit_ok[OF this] show ?thesis by simp
qed

lemma submit_score_reordered:
  assumes pk: "pk_questions d" and perm: "mset qs' = mset (questions d)"
  shows "map_sum id score (fst (submit_exam (d\<lparr>questions := qs'\<rparr>) rid fault req)) =
         map_sum id score (fst (submit_exam d rid fault req))"
proof -
  let ?d' = "d\<lparr>questions := qs'\<rparr>"
  have h: "mset (map (\<lambda>q. (q_exam_id q, q_question_text q)) qs') =
        mset (map (\<lambda>q. (q_exam_id q, q_question_text q)) (questions d))"
    using perm by simp
  from mset_eq_imp_distinct_iff[OF h] pk
  have "distinct (map (\<lambda>q. (q_exam_id q, q_question_text q)) qs')" by (simp add: pk_questions_def)
  then have pk': "pk_questions ?d'" by (simp add: pk_questions_def)
  have m: "mset (real_questions ?d' eid) = mset (real_questions d eid)" for eid
    by (simp add: real_questions_def perm)
  have emp: "real_questions ?d' eid = [] \<longleftrightarrow> real_questions d eid = []" for eid
    using m[of eid] by (metis mset_zero_iff)
  have sc: "fst (grade a (correct_answers_map (real_questions ?d' eid)) (real_questions ?d' eid) 0 []) =
            fst (grade a (correct_answers_map (real_questions d eid)) (real_questions d eid) 0 [])" for a eid
    by (simp add: grade_score_mset real_questions_distinct[OF pk] real_questions_distinct[OF pk'] m)
  have res: "results ?d' = results d" by simp
  show ?thesis
    unfolding submit_exam_def Let_def split_beta emp res
    by (auto simp: sc emp split: option.splits)
qed

lemma map_of_reordered:
  assumes "distinct (map fst a1)" and "mset a2 = mset a1"
  shows "map_of a2 = map_of a1"
proof -
  have "mset (map fst a2) = mset (map fst a1)" using assms(2) by simp
  from mset_eq_imp_distinct_iff[OF this] assms(1) have "distinct (map fst a2)" by simp
  moreover have "set a2 = set a1" using assms(2) by (rule mset_eq_setD)
  ultimately show ?thesis using assms(1) by (simp add: map_of_inject_set)
qed

lemma submit_answers_reordered:
  assumes "distinct (map fst a1)" and "mset a2 = mset a1"
  shows "fst (submit_exam d rid fault (req\<lparr>sb_answers := Some a2\<rparr>)) =
         fst (submit_exam d rid fault (req\<lparr>sb_answers := Some a1\<rparr>))"
  by (rule submit_answers_cong) (simp add: map_of_reordered[OF assms])

lemma in_progress_of_submit_other:
  assumes "\<not> (sb_student_id req = Some s \<and> sb_exam_id req = Some e)"
  shows "in_progress_of (snd (submit_exam d rid fault req)) s e = in_progress_of d s e"
proof (cases "fst (submit_exam d rid fault req)")
  case (Inl err)
  then show ?thesis by (simp add: submit_InlD)
next
  case (Inr p)
  then have "submit_exam d rid fault req = (Inr p, snd (submit_exam d rid fault req))"
    by (metis prod.collapse)
  from submit_InrD[OF this] obtain e' s' n t a where f: "sb_exam_id req = Some e'" "sb_student_id req = Some s'"
    and d': "snd (submit_exam d rid fault req) =
       d\<lparr>results := results d @ [\<lparr>r_result_id = rid, r_exam_id = e', r_student_id = s', r_teacher_id = t,
                 r_student_name = n, r_score = score p, r_answers = a\<rparr>],
         in_progress_exams := [r \<leftarrow> in_progress_exams d. \<not> (p_student_id r = s' \<and> p_exam_id r = e')]\<rparr>"
    by blast
  have i: "in_progress_exams (snd (submit_exam d rid fault req)) =
       [r \<leftarrow> in_progress_exams d. \<not> (p_student_id r = s' \<and> p_exam_id r = e')]"
    by (simp add: d')
  from assms f have "\<not> (s' = s \<and> e' = e)" by simp
  then have "[r \<leftarrow> in_progress_exams d. \<not> (p_student_id r = s' \<and> p_exam_id r = e') \<and>
       p_student_id r = s \<and> p_exam_id r = e] = in_progress_of d s e"
    unfolding in_progress_of_def by (intro filter_cong) auto
  then show ?thesis by (simp add: in_progress_of_def i)
qed

subsection \<open>The save handler\<close>

lemma save_invalid_iff:
  "fst (save_progress d fault req) = Inl Invalid_data \<longleftrightarrow>
     \<not> (truthy (sv_student_id req) \<and> truthy (sv_exam_id req) \<and> truthy (sv_teacher_id req) \<and>
        truthy (sv_answers req) \<and> sv_time_left req \<noteq> None \<and> truthy (sv_question_status req))"
  by (auto simp: save_progress_def truthy_def Let_def split: option.splits)

lemma save_InlD: "fst (save_progress d fault req) = Inl err \<Longrightarrow> snd (save_progress d fault req) = d"
  by (auto simp: save_progress_def Let_def split: option.splits if_splits)

lemma save_ok:
  assumes "truthy (sv_student_id req)" "truthy (sv_exam_id req)" "truthy (sv_teacher_id req)"
    "truthy (sv_answers req)" "sv_time_left req = Some secs" "sqlite_integer secs"
    "truthy (sv_question_status req)"
  shows "\<exists>s e t a qs. sv_student_id req = Some s \<and> sv_exam_id req = Some e \<and> sv_teacher_id req = Some t
     \<and> sv_answers req = Some a \<and> sv_question_status req = Some qs
     \<and> s \<noteq> [] \<and> e \<noteq> [] \<and> t \<noteq> [] \<and> a \<noteq> [] \<and> qs \<noteq> []
     \<and> save_progress d None req =
         (Inr (), d\<lparr>in_progress_exams := replace_in_progress (in_progress_exams d)
            \<lparr>p_student_id = s, p_exam_id = e, p_teacher_id = t, p_answers = a,
             p_question_status = qs, p_time_left = secs\<rparr>\<rparr>)"
  using assms by (auto simp: save_progress_def truthy_def Let_def split: option.splits)

lemma save_InrD:
  assumes "save_progress d fault req = (Inr u, d')"
  shows "\<exists>s e t a secs qs. sv_student_id req = Some s \<and> sv_exam_id req = Some e \<and> sv_teacher_id req = Some t
     \<and> sv_answers req = Some a \<and> sv_time_left req = Some secs \<and> sv_question_status req = Some qs
     \<and> a \<noteq> [] \<and> qs \<noteq> [] \<and> sqlite_integer secs
     \<and> d' = d\<lparr>in_progress_exams := replace_in_progress (in_progress_exams d)
            \<lparr>p_student_id = s, p_exam_id = e, p_teacher_id = t, p_answers = a,
             p_question_status = qs, p_time_left = secs\<rparr>\<rparr>"
  using assms by (auto simp: save_progress_def truthy_def Let_def split: option.splits if_splits)

lemma save_fault_fails:
  assumes "truthy (sv_student_id req)" "truthy (sv_exam_id req)" "truthy (sv_teacher_id req)"
    "truthy (sv_answers req)" "sv_time_left req = Some secs" "sqlite_integer secs"
    "truthy (sv_question_status req)"
    and "fault = Some Insert_fails \<or> fault = Some Commit_fails"
  shows "save_progress d fault req = (Inl (An_error_occurred OperationalError), d)"
  using assms by (auto simp: save_progress_def truthy_def Let_def split: option.splits)

lemma save_overflow:
  assumes "truthy (sv_student_id req)" "truthy (sv_exam_id req)" "truthy (sv_teacher_id req)"
    "truthy (sv_answers req)" "sv_time_left req = Some secs" "\<not> sqlite_integer secs"
    "truthy (sv_question_status req)"
  shows "save_progress d fault req = (Inl (An_error_occurred OverflowError), d)"
  using assms by (auto simp: save_progress_def truthy_def Let_def split: option.splits)

lemma in_progress_of_replace:
  "in_progress_of (d\<lparr>in_progress_exams := replace_in_progress (in_progress_exams d) new\<rparr>) s e =
     (if s = p_student_id new \<and> e = p_exam_id new then [new] else in_progress_of d s e)"
proof -
  have "[p \<leftarrow> in_progress_exams d. \<not> (p_student_id p = p_student_id new \<and> p_exam_id p = p_exam_id new) \<and>
          p_student_id p = s \<and> p_exam_id p = e] =
        (if s = p_student_id new \<and> e = p_exam_id new then [] else in_progress_of d s e)"
    by (auto simp: in_progress_of_def intro: filter_cong)
  then show ?thesis
    by (auto simp: in_progress_of_def replace_in_progress_def)
qed

lemma save_progress_tables:
  "results (snd (save_progress d fault req)) = results d
   \<and> questions (snd (save_progress d fault req)) = questions d
   \<and> students (snd (save_progress d fault req)) = students d"
  by (auto simp: save_progress_def Let_def split: option.splits)

lemma in_progress_of_save_other:
  assumes "\<not> (sv_student_id req = Some s \<and> sv_exam_id req = Some e)"
  shows "in_progress_of (snd (save_progress d fault req)) s e = in_progress_of d s e"
proof (cases "fst (save_progress d fault req)")
  case (Inl err)
  then show ?thesis by (simp add: save_InlD)
next
  case (Inr u)
  then have "save_progress d fault req = (Inr u, snd (save_progress d fault req))"
    by (metis prod.collapse)
  from save_InrD[OF this] assms show ?thesis
    by (auto simp: in_progress_of_replace)
qed

lemma saved_row:
  assumes "save_progress d fault req = (Inr u, d1)" "sv_student_id req = Some s" "sv_exam_id req = Some e"
  shows "\<exists>r. in_progress_of d1 s e = [r] \<and> sv_answers req = Some (p_answers r)
     \<and> sv_question_status req = Some (p_question_status r) \<and> sv_time_left req = Some (p_time_left r)
     \<and> p_answers r \<noteq> [] \<and> p_question_status r \<noteq> []"
  using save_InrD[OF assms(1)] assms(2,3) by (auto simp: in_progress_of_replace)

subsection \<open>Runs\<close>

lemma apply_operation_questions: "questions (apply_operation d x) = questions d"
  by (cases x) (simp_all add: save_progress_tables submit_exam_tables)

lemma apply_operation_students: "students (apply_operation d x) = students d"
  by (cases x) (simp_all add: save_progress_tables submit_exam_tables)

lemma questions_of_exam_apply:
  "questions_of_exam (apply_operation d x) eid = questions_of_exam d eid"
  by (simp add: questions_of_exam_def apply_operation_questions)

lemma run_questions: "questions (run d ops) = questions d"
  by (induction ops arbitrary: d) (simp_all add: apply_operation_questions)

lemma num_attempts_save:
  "num_attempts (snd (save_progress d fault req)) sid eid = num_attempts d sid eid"
  by (simp add: num_attempts_def save_progress_tables)

lemma attempts_bounded_step:
  assumes r: "fetchone (questions_of_exam d (Some e)) = Some r"
    and le: "num_attempts d (Some s) (Some e) \<le> q_allowed_attempts r"
    and gate: "\<And>rid fault req. x = Submit rid fault req \<Longrightarrow> eligible d (sb_student_id req) (sb_exam_id req)"
  shows "num_attempts (apply_operation d x) (Some s) (Some e) \<le> q_allowed_attempts r"
proof (cases x)
  case (Start a b)
  with le show ?thesis by simp
next
  case (Save fault req)
  with le show ?thesis by (simp add: num_attempts_save)
next
  case (Submit rid fault req)
  show ?thesis
  proof (cases "Some s = sb_student_id req \<and> Some e = sb_exam_id req")
    case True
    with gate[OF Submit] have "eligible d (Some s) (Some e)" by simp
    from eligible_bound[OF this] r have "num_attempts d (Some s) (Some e) < q_allowed_attempts r"
      by simp
    with num_attempts_submit_le[of d rid fault req "Some s" "Some e"] True Submit show ?thesis by simp
  next
    case False
    with num_attempts_submit_le[of d rid fault req "Some s" "Some e"] le Submit show ?thesis by auto
  qed
qed

lemma attempts_bounded_run:
  "fetchone (questions_of_exam d (Some e)) = Some r \<Longrightarrow>
   num_attempts d (Some s) (Some e) \<le> q_allowed_attempts r \<Longrightarrow> gated_run d ops \<Longrightarrow>
   num_attempts (run d ops) (Some s) (Some e) \<le> q_allowed_attempts r"
proof (induction ops arbitrary: d)
  case Nil
  then show ?case by simp
next
  case (Cons x ops)
  have g: "gated_run (apply_operation d x) ops" using Cons.prems(3) by (cases x) simp_all
  have q: "fetchone (questions_of_exam (apply_operation d x) (Some e)) = Some r"
    using Cons.prems(1) by (simp add: questions_of_exam_apply)
  have "num_attempts (apply_operation d x) (Some s) (Some e) \<le> q_allowed_attempts r"
  proof (rule attempts_bounded_step[OF Cons.prems(1) Cons.prems(2)])
    fix rid fault req assume "x = Submit rid fault req"
    with Cons.prems(3) show "eligible d (sb_student_id req) (sb_exam_id req)" by simp
  qed
  from Cons.IH[OF q this g] show ?case by simp
qed

lemma exam_spec_run: "exam_spec (run d ops) e = exam_spec d e"
  by (simp add: exam_spec_def run_questions)

lemma gate_row:
  assumes "exam_spec d e = Some spec" and "gate_reads_spec d e"
  shows "\<exists>r. fetchone (questions_of_exam d (Some e)) = Some r \<and> q_allowed_attempts r = q_allowed_attempts spec"
  using assms by (auto simp: gate_reads_spec_def split: option.splits)

lemma limit_ok_gated_run:
  assumes g: "gate_reads_spec d e" and l: "limit_ok d s e" and r: "gated_run d ops"
  shows "limit_ok (run d ops) s e"
proof (cases "exam_spec d e")
  case None
  then show ?thesis by (simp add: limit_ok_def exam_spec_run)
next
  case (Some spec)
  from gate_row[OF Some g] obtain r0 where r0: "fetchone (questions_of_exam d (Some e)) = Some r0"
    and eq: "q_allowed_attempts r0 = q_allowed_attempts spec" by blast
  from l Some have "num_attempts d (Some s) (Some e) \<le> q_allowed_attempts r0"
    by (simp add: limit_ok_def eq)
  from attempts_bounded_run[OF r0 this r] show ?thesis
    using Some by (simp add: limit_ok_def exam_spec_run eq)
qed

lemma start_refuses_at_spec_limit:
  assumes "exam_spec d e = Some spec" and "gate_reads_spec d e"
    and "q_allowed_attempts spec \<le> num_attempts d sid (Some e)"
  shows "isl (check_exam_eligibility d rnd sid (Some e))"
proof -
  from gate_row[OF assms(1,2)] obtain r0 where r0: "fetchone (questions_of_exam d (Some e)) = Some r0"
    and eq: "q_allowed_attempts r0 = q_allowed_attempts spec" by blast
  from assms(3) have "q_allowed_attempts r0 \<le> num_attempts d sid (Some e)" by (simp add: eq)
  with r0 show ?thesis by (rule start_refuses_at_limit)
qed

lemma start_forbidden_at_spec_limit:
  assumes "exam_spec d e = Some spec" and "gate_reads_spec d e"
    and r: "fetchone (questions_of_exam d (Some e)) = Some r"
    and a: "fetchone [st \<leftarrow> students d. Some (s_student_id st) = sid \<and> s_teacher_id st = q_teacher_id r] = Some a"
    and "q_allowed_attempts spec \<le> num_attempts d sid (Some e)"
  shows "check_exam_eligibility d rnd sid (Some e) =
     Inl (No_attempts_remaining (num_attempts d sid (Some e)))"
proof -
  from gate_row[OF assms(1,2)] r have "q_allowed_attempts r = q_allowed_attempts spec" by auto
  with assms(5) have "q_allowed_attempts r \<le> num_attempts d sid (Some e)" by simp
  with r a show ?thesis by (rule start_exhausted)
qed

lemma in_progress_of_untouched:
  "\<not> touches s e x \<Longrightarrow> in_progress_of (apply_operation d x) s e = in_progress_of d s e"
  by (cases x) (simp_all add: in_progress_of_save_other in_progress_of_submit_other)

lemma in_progress_of_run:
  "\<forall>x \<in> set ops. \<not> touches s e x \<Longrightarrow> in_progress_of (run d ops) s e = in_progress_of d s e"
  by (induction ops arbitrary: d) (simp_all add: in_progress_of_untouched)

subsection \<open>The small store\<close>

lemma pk_db0: "pk_questions db0"
  by (simp add: pk_questions_def db0_def settings_row_def q1_row_def q2_row_def)

lemma real_questions_db0: "real_questions db0 (Some ''E1'') = [q1_row, q2_row]"
  by (simp add: real_questions_def db0_def settings_row_def q1_row_def q2_row_def)

lemma submit0_db0:
  "submit_exam db0 ''r1'' None submit0 =
     (Inr \<lparr>score = 1, analysis_report =
        [\<lparr>e_question_text = ''Q1'', e_options = [(''A'', ''one''), (''B'', ''two'')],
          e_student_answer = Some ''A'', e_correct_answer = Some ''A'', e_is_correct = True\<rparr>,
         \<lparr>e_question_text = ''Q2'', e_options = [(''B'', ''three''), (''C'', ''four'')],
          e_student_answer = Some ''C'', e_correct_answer = Some ''B'', e_is_correct = False\<rparr>]\<rparr>,
      db0\<lparr>results := [\<lparr>r_result_id = ''r1'', r_exam_id = ''E1'', r_student_id = ''S1'',
         r_teacher_id = ''T1'', r_student_name = ''Ann'', r_score = 1,
         r_answers = [(''Q1'', ''A''), (''Q2'', ''C'')]\<rparr>]\<rparr>)"
  by (simp add: submit_exam_def real_questions_db0 submit0_def correct_answers_map_def Let_def)
     (simp add: db0_def q1_row_def q2_row_def settings_row_def)

lemma save0_db0: "save_progress db0 None save0 = (Inr (), db1)"
  by (simp add: save_progress_def save0_def truthy_def sqlite_integer_def replace_in_progress_def
      db0_def db1_def)

lemma real_questions_db1: "real_questions db1 (Some ''E1'') = [q1_row, q2_row]"
  using real_questions_db0 by (simp add: real_questions_def db1_def)

lemma submit0_db1:
  "submit_exam db1 ''r1'' None submit0 =
     (Inr \<lparr>score = 1, analysis_report =
        [\<lparr>e_question_text = ''Q1'', e_options = [(''A'', ''one''), (''B'', ''two'')],
          e_student_answer = Some ''A'', e_correct_answer = Some ''A'', e_is_correct = True\<rparr>,
         \<lparr>e_question_text = ''Q2'', e_options = [(''B'', ''three''), (''C'', ''four'')],
          e_student_answer = Some ''C'', e_correct_answer = Some ''B'', e_is_correct = False\<rparr>]\<rparr>,
      db0\<lparr>results := [\<lparr>r_result_id = ''r1'', r_exam_id = ''E1'', r_student_id = ''S1'',
         r_teacher_id = ''T1'', r_student_name = ''Ann'', r_score = 1,
         r_answers = [(''Q1'', ''A''), (''Q2'', ''C'')]\<rparr>]\<rparr>)"
  by (simp add: submit_exam_def real_questions_db1 submit0_def correct_answers_map_def Let_def)
     (simp add: db1_def db0_def q1_row_def q2_row_def settings_row_def)

lemma submit0_db1_commit_fails:
  "submit_exam db1 ''r1'' (Some Commit_fails) submit0 = (Inl (An_error_occurred OperationalError), db1)"
  by (simp add: submit_exam_def real_questions_db1 submit0_def correct_answers_map_def Let_def)
     (simp add: db1_def db0_def)

lemma fetchone_settings_db0: "fetchone (questions_of_exam db0 (Some ''E1'')) = Some settings_row"
  by (simp add: fetchone_def questions_of_exam_def db0_def settings_row_def q1_row_def q2_row_def)

lemma exam_spec_db0: "exam_spec db0 ''E1'' = Some settings_row"
  by (simp add: exam_spec_def fetchone_def db0_def settings_row_def q1_row_def q2_row_def)

lemma gate_reads_spec_db0: "gate_reads_spec db0 ''E1''"
  by (simp add: gate_reads_spec_def exam_spec_db0 fetchone_settings_db0)

lemma limit_ok_db0: "limit_ok db0 ''S1'' ''E1''"
  by (simp add: limit_ok_def exam_spec_db0) (simp add: num_attempts_def db0_def settings_row_def)

lemma eligible_db1: "eligible db1 (Some ''S1'') (Some ''E1'')"
proof (rule eligibleI)
  show "fetchone (questions_of_exam db1 (Some ''E1'')) = Some settings_row"
    using fetchone_settings_db0 by (simp add: questions_of_exam_def db1_def)
  show "fetchone [s \<leftarrow> students db1. Some (s_student_id s) = Some ''S1'' \<and> s_teacher_id s = q_teacher_id settings_row]
      = Some \<lparr>s_student_id = ''S1'', s_teacher_id = ''T1'', s_student_name = ''Ann''\<rparr>"
    by (simp add: fetchone_def db1_def db0_def settings_row_def)
  show "num_attempts db1 (Some ''S1'') (Some ''E1'') < q_allowed_attempts settings_row"
    by (simp add: num_attempts_def db1_def db0_def settings_row_def)
  show "real_questions db1 (Some ''E1'') \<noteq> []" by (simp add: real_questions_db1)
qed

lemma submit0_db1_db2: "snd (submit_exam db1 ''r1'' None submit0) = db2"
  by (simp add: submit0_db1 db2_def)

lemma submit0_db0_db2: "snd (submit_exam db0 ''r1'' None submit0) = db2"
  by (simp add: submit0_db0 db2_def)

lemma real_questions_db2: "real_questions db2 (Some ''E1'') = [q1_row, q2_row]"
  using real_questions_db0 by (simp add: real_questions_def db2_def)

lemma submit0_db2:
  "submit_exam db2 ''r2'' None submit0 =
     (Inr \<lparr>score = 1, analysis_report =
        [\<lparr>e_question_text = ''Q1'', e_options = [(''A'', ''one''), (''B'', ''two'')],
          e_student_answer = Some ''A'', e_correct_answer = Some ''A'', e_is_correct = True\<rparr>,
         \<lparr>e_question_text = ''Q2'', e_options = [(''B'', ''three''), (''C'', ''four'')],
          e_student_answer = Some ''C'', e_correct_answer = Some ''B'', e_is_correct = False\<rparr>]\<rparr>,
      db2\<lparr>results := results db2 @ [\<lparr>r_result_id = ''r2'', r_exam_id = ''E1'', r_student_id = ''S1'',
         r_teacher_id = ''T1'', r_student_name = ''Ann'', r_score = 1,
         r_answers = [(''Q1'', ''A''), (''Q2'', ''C'')]\<rparr>]\<rparr>)"
  by (simp add: submit_exam_def real_questions_db2 submit0_def correct_answers_map_def Let_def)
     (simp add: db2_def db0_def q1_row_def q2_row_def settings_row_def)

lemma fetchone_settings_db2: "fetchone (questions_of_exam db2 (Some ''E1'')) = Some settings_row"
  using fetchone_settings_db0 by (simp add: questions_of_exam_def db2_def)

lemma exam_spec_db2: "exam_spec db2 ''E1'' = Some settings_row"
  using exam_spec_db0 by (simp add: exam_spec_def db2_def)

lemma gate_reads_spec_db2: "gate_reads_spec db2 ''E1''"
  by (simp add: gate_reads_spec_def exam_spec_db2 fetchone_settings_db2)

subsection \<open>The store with stale question rows\<close>

lemma exam_spec_stale: "exam_spec db_stale ''E1'' = Some settings_row"
  by (simp add: exam_spec_def fetchone_def db_stale_def settings_row_def q1_row_def q2_row_def)

lemma gate_row_stale:
  assumes "questions d = questions db_stale"
  shows "fetchone (questions_of_exam d (Some ''E1'')) = Some (q1_row\<lparr>q_allowed_attempts := 3\<rparr>)"
  by (simp add: assms questions_of_exam_def fetchone_def db_stale_def settings_row_def q1_row_def)

lemma real_questions_stale:
  assumes "questions d = questions db_stale"
  shows "real_questions d (Some ''E1'') =
     [q1_row\<lparr>q_allowed_attempts := 3\<rparr>, q2_row\<lparr>q_allowed_attempts := 3\<rparr>]"
  by (simp add: assms real_questions_def db_stale_def settings_row_def q1_row_def q2_row_def)

lemma stale_eligible:
  assumes q: "questions d = questions db_stale" and st: "students d = students db_stale"
    and n: "num_attempts d (Some ''S1'') (Some ''E1'') < 3"
  shows "eligible d (Some ''S1'') (Some ''E1'')"
proof (rule eligibleI[OF gate_row_stale[OF q]])
  show "fetchone [s \<leftarrow> students d. Some (s_student_id s) = Some ''S1'' \<and>
          s_teacher_id s = q_teacher_id (q1_row\<lparr>q_allowed_attempts := 3\<rparr>)]
      = Some \<lparr>s_student_id = ''S1'', s_teacher_id = ''T1'', s_student_name = ''Ann''\<rparr>"
    by (simp add: st fetchone_def db_stale_def db0_def q1_row_def settings_row_def)
  show "num_attempts d (Some ''S1'') (Some ''E1'') < q_allowed_attempts (q1_row\<lparr>q_allowed_attempts := 3\<rparr>)"
    using n by simp
  show "real_questions d (Some ''E1'') \<noteq> []" by (simp add: real_questions_stale[OF q])
qed

lemma stale_submit:
  assumes q: "questions d = questions db_stale" and st: "students d = students db_stale"
    and fresh: "rid \<notin> set (map r_result_id (results d))"
  shows "questions (snd (submit_exam d rid None submit0)) = questions db_stale
     \<and> students (snd (submit_exam d rid None submit0)) = students db_stale
     \<and> map r_result_id (results (snd (submit_exam d rid None submit0))) = map r_result_id (results d) @ [rid]
     \<and> num_attempts (snd (submit_exam d rid None submit0)) (Some ''S1'') (Some ''E1'') =
         num_attempts d (Some ''S1'') (Some ''E1'') + 1"
proof -
  have f: "sb_exam_id submit0 = Some ''E1''" "sb_student_id submit0 = Some ''S1''"
    "sb_student_name submit0 = Some ''Ann''" "sb_teacher_id submit0 = Some ''T1''"
    "sb_answers submit0 = Some [(''Q1'', ''A''), (''Q2'', ''C'')]"
    by (simp_all add: submit0_def)
  have "real_questions d (Some ''E1'') \<noteq> []" by (simp add: real_questions_stale[OF q])
  from submit_ok[OF f this fresh] obtain p d' where ok: "submit_exam d rid None submit0 = (Inr p, d')"
    by blast
  from submit_InrD[OF ok] obtain e s n t a where
    d': "d' = d\<lparr>results := results d @ [\<lparr>r_result_id = rid, r_exam_id = e, r_student_id = s, r_teacher_id = t,
                 r_student_name = n, r_score = score p, r_answers = a\<rparr>],
              in_progress_exams := [r \<leftarrow> in_progress_exams d. \<not> (p_student_id r = s \<and> p_exam_id r = e)]\<rparr>"
    by blast
  have "num_attempts d' (Some ''S1'') (Some ''E1'') = num_attempts d (Some ''S1'') (Some ''E1'') + 1"
    using num_attempts_submit_ok[OF ok, of "Some ''S1''" "Some ''E1''"] by (simp add: f)
  moreover have "map r_result_id (results d') = map r_result_id (results d) @ [rid]"
    by (simp add: d')
  moreover have "questions d' = questions db_stale" "students d' = students db_stale"
    by (simp_all add: d' q st)
  ultimately show ?thesis by (simp add: ok)
qed

subsection \<open>The small store, continued\<close>

lemma fetchone_student_db0:
  "fetchone [st \<leftarrow> students db0. Some (s_student_id st) = Some ''S1'' \<and> s_teacher_id st = q_teacher_id settings_row]
     = Some \<lparr>s_student_id = ''S1'', s_teacher_id = ''T1'', s_student_name = ''Ann''\<rparr>"
  by (simp add: fetchone_def db0_def settings_row_def)

lemma fetchone_student_db2:
  "fetchone [st \<leftarrow> students db2. Some (s_student_id st) = Some ''S1'' \<and> s_teacher_id st = q_teacher_id settings_row]
     = Some \<lparr>s_student_id = ''S1'', s_teacher_id = ''T1'', s_student_name = ''Ann''\<rparr>"
  by (simp add: fetchone_def db2_def db0_def settings_row_def)

lemma no_exam_db0: "fetchone (questions_of_exam db0 (Some ''E9'')) = None"
  by (simp add: fetchone_def questions_of_exam_def db0_def settings_row_def q1_row_def q2_row_def)

lemma no_student_db0:
  "fetchone [st \<leftarrow> students db0. Some (s_student_id st) = Some ''S9'' \<and> s_teacher_id st = q_teacher_id settings_row]
     = None"
  by (simp add: fetchone_def db0_def)

lemma num_attempts_db0: "num_attempts db0 (Some ''S1'') (Some ''E1'') = 0"
  by (simp add: num_attempts_def db0_def)

lemma num_attempts_db2: "num_attempts db2 (Some ''S1'') (Some ''E1'') = 1"
  by (simp add: num_attempts_def db2_def)

lemma settings_only:
  "fetchone (questions_of_exam (db0\<lparr>questions := [settings_row]\<rparr>) (Some ''E1'')) = Some settings_row
   \<and> real_questions (db0\<lparr>questions := [settings_row]\<rparr>) (Some ''E1'') = []
   \<and> num_attempts (db0\<lparr>questions := [settings_row]\<rparr>) (Some ''S1'') (Some ''E1'') = 0
   \<and> fetchone [st \<leftarrow> students (db0\<lparr>questions := [settings_row]\<rparr>).
        Some (s_student_id st) = Some ''S1'' \<and> s_teacher_id st = q_teacher_id settings_row]
     = Some \<lparr>s_student_id = ''S1'', s_teacher_id = ''T1'', s_student_name = ''Ann''\<rparr>"
  by (simp add: fetchone_def questions_of_exam_def real_questions_def num_attempts_def db0_def settings_row_def)

lemma save1_valid:
  "truthy (sv_student_id save1) \<and> truthy (sv_exam_id save1) \<and> truthy (sv_teacher_id save1) \<and>
   truthy (sv_answers save1) \<and> truthy (sv_question_status save1) \<and>
   sv_time_left save1 = Some 120 \<and> sqlite_integer 120"
  by (simp add: save1_def truthy_def sqlite_integer_def)

lemma save1_too_long:
  "truthy (sv_student_id (save1\<lparr>sv_time_left := Some (2 ^ 63)\<rparr>))
   \<and> truthy (sv_exam_id (save1\<lparr>sv_time_left := Some (2 ^ 63)\<rparr>))
   \<and> truthy (sv_teacher_id (save1\<lparr>sv_time_left := Some (2 ^ 63)\<rparr>))
   \<and> truthy (sv_answers (save1\<lparr>sv_time_left := Some (2 ^ 63)\<rparr>))
   \<and> truthy (sv_question_status (save1\<lparr>sv_time_left := Some (2 ^ 63)\<rparr>))
   \<and> sv_time_left (save1\<lparr>sv_time_left := Some (2 ^ 63)\<rparr>) = Some (2 ^ 63)
   \<and> \<not> sqlite_integer (2 ^ 63)"
  by (simp add: save1_def truthy_def sqlite_integer_def)

lemma in_progress_of_db1:
  "in_progress_of db1 ''S1'' ''E1'' =
     [\<lparr>p_student_id = ''S1'', p_exam_id = ''E1'', p_teacher_id = ''T1'', p_answers = [(''Q1'', ''A'')],
       p_question_status = [(''Q1'', ''answered'')], p_time_left = 300\<rparr>]"
  by (simp add: in_progress_of_def db1_def)

lemma start_db1:
  "\<exists>p. check_exam_eligibility db1 (\<lambda>i. 0) (Some ''S1'') (Some ''E1'') = Inr p"
proof (rule start_passes)
  show "fetchone (questions_of_exam db1 (Some ''E1'')) = Some settings_row"
    using fetchone_settings_db0 by (simp add: questions_of_exam_def db1_def)
  show "fetchone [s \<leftarrow> students db1. Some (s_student_id s) = Some ''S1'' \<and> s_teacher_id s = q_teacher_id settings_row]
      = Some \<lparr>s_student_id = ''S1'', s_teacher_id = ''T1'', s_student_name = ''Ann''\<rparr>"
    by (simp add: fetchone_def db1_def db0_def settings_row_def)
  show "num_attempts db1 (Some ''S1'') (Some ''E1'') < q_allowed_attempts settings_row"
    by (simp add: num_attempts_def db1_def db0_def settings_row_def)
  show "real_questions db1 (Some ''E1'') \<noteq> []" by (simp add: real_questions_db1)
qed

lemma start_db0:
  "\<exists>p. check_exam_eligibility db0 (\<lambda>i. 0) (Some ''S1'') (Some ''E1'') = Inr p"
  using fetchone_settings_db0 fetchone_student_db0
  by (rule start_passes) (simp_all add: num_attempts_db0 settings_row_def real_questions_db0)

lemma reordered_db0: "mset [q2_row, settings_row, q1_row] = mset (questions db0)"
  by (simp add: db0_def)

lemma submit0_reordered:
  "fst (submit_exam (db0\<lparr>questions := [q2_row, settings_row, q1_row]\<rparr>) ''r1'' None submit0) =
     Inr \<lparr>score = 1, analysis_report =
        [\<lparr>e_question_text = ''Q2'', e_options = [(''B'', ''three''), (''C'', ''four'')],
          e_student_answer = Some ''C'', e_correct_answer = Some ''B'', e_is_correct = False\<rparr>,
         \<lparr>e_question_text = ''Q1'', e_options = [(''A'', ''one''), (''B'', ''two'')],
          e_student_answer = Some ''A'', e_correct_answer = Some ''A'', e_is_correct = True\<rparr>]\<rparr>"
proof -
  have rq: "real_questions (db0\<lparr>questions := [q2_row, settings_row, q1_row]\<rparr>) (Some ''E1'') = [q2_row, q1_row]"
    by (simp add: real_questions_def settings_row_def q1_row_def q2_row_def)
  show ?thesis
    by (simp add: submit_exam_def rq submit0_def correct_answers_map_def Let_def)
       (simp add: db0_def q1_row_def q2_row_def settings_row_def)
qed

subsection \<open>Deletions between the queries of a start\<close>

lemma delete_placeholder:
  "delete_question db_settings None (Some ''T1'') (Some ''E1'') (Some ''placeholder'') =
     (Deleted, db_settings\<lparr>questions := []\<rparr>)"
  by (simp add: delete_question_def truthy_def db_settings_def settings_row_def)

lemma delete_student_db0:
  "delete_student db0 None (Some ''T1'') (Some ''S1'') = (Deleted, db0\<lparr>students := []\<rparr>)"
  by (simp add: delete_student_def db0_def)

lemma db_settings_queries:
  "fetchone (questions_of_exam db_settings (Some ''E1'')) = Some settings_row"
  "real_questions db_settings (Some ''E1'') = []"
  "num_attempts db_settings (Some ''S1'') (Some ''E1'') = 0"
  "fetchone [st \<leftarrow> students db_settings.
      Some (s_student_id st) = Some ''S1'' \<and> s_teacher_id st = q_teacher_id settings_row]
     = Some \<lparr>s_student_id = ''S1'', s_teacher_id = ''T1'', s_student_name = ''Ann''\<rparr>"
  using settings_only unfolding db_settings_def by blast+

lemma question_deleted_between_queries:
  "fetchone (questions_of_exam (question_deleted_between 0) (Some ''E1'')) = Some settings_row"
  "fetchone [st \<leftarrow> students (question_deleted_between 1).
      Some (s_student_id st) = Some ''S1'' \<and> s_teacher_id st = q_teacher_id settings_row]
     = Some \<lparr>s_student_id = ''S1'', s_teacher_id = ''T1'', s_student_name = ''Ann''\<rparr>"
  "fetchone (questions_of_exam (question_deleted_between 2) (Some ''E1'')) = None"
proof -
  have b: "question_deleted_between 0 = db_settings" "question_deleted_between 1 = db_settings"
    by (simp_all add: question_deleted_between_def)
  have c: "question_deleted_between 2 = db_settings\<lparr>questions := []\<rparr>"
    by (simp add: question_deleted_between_def delete_placeholder)
  show "fetchone (questions_of_exam (question_deleted_between 0) (Some ''E1'')) = Some settings_row"
    unfolding b by (rule db_settings_queries)
  show "fetchone [st \<leftarrow> students (question_deleted_between 1).
      Some (s_student_id st) = Some ''S1'' \<and> s_teacher_id st = q_teacher_id settings_row]
     = Some \<lparr>s_student_id = ''S1'', s_teacher_id = ''T1'', s_student_name = ''Ann''\<rparr>"
    unfolding b by (rule db_settings_queries)
  show "fetchone (questions_of_exam (question_deleted_between 2) (Some ''E1'')) = None"
    unfolding c by (simp add: questions_of_exam_def fetchone_def)
qed

lemma student_deleted_between_queries:
  "fetchone (questions_of_exam (student_deleted_between 0) (Some ''E1'')) = Some settings_row"
  "fetchone [st \<leftarrow> students (student_deleted_between 1).
      Some (s_student_id st) = Some ''S1'' \<and> s_teacher_id st = q_teacher_id settings_row]
     = Some \<lparr>s_student_id = ''S1'', s_teacher_id = ''T1'', s_student_name = ''Ann''\<rparr>"
  "fetchone (questions_of_exam (student_deleted_between 2) (Some ''E1'')) = Some settings_row"
  "num_attempts (student_deleted_between 3) (Some ''S1'') (Some ''E1'') = 0"
  "fetchone [st \<leftarrow> students (student_deleted_between 4). Some (s_student_id st) = Some ''S1''] = None"
  "real_questions (student_deleted_between 5) (Some ''E1'') = [q1_row, q2_row]"
proof -
  have b: "student_deleted_between 0 = db0" "student_deleted_between 1 = db0"
    "student_deleted_between 2 = db0" "student_deleted_between 3 = db0"
    by (simp_all add: student_deleted_between_def)
  have c: "student_deleted_between 4 = db0\<lparr>students := []\<rparr>"
    "student_deleted_between 5 = db0\<lparr>students := []\<rparr>"
    by (simp_all add: student_deleted_between_def delete_student_db0)
  show "fetchone (questions_of_exam (student_deleted_between 0) (Some ''E1'')) = Some settings_row"
    unfolding b by (rule fetchone_settings_db0)
  show "fetchone [st \<leftarrow> students (student_deleted_between 1).
      Some (s_student_id st) = Some ''S1'' \<and> s_teacher_id st = q_teacher_id settings_row]
     = Some \<lparr>s_student_id = ''S1'', s_teacher_id = ''T1'', s_student_name = ''Ann''\<rparr>"
    unfolding b by (rule fetchone_student_db0)
  show "fetchone (questions_of_exam (student_deleted_between 2) (Some ''E1'')) = Some settings_row"
    unfolding b by (rule fetchone_settings_db0)
  show "num_attempts (student_deleted_between 3) (Some ''S1'') (Some ''E1'') = 0"
    unfolding b by (rule num_attempts_db0)
  show "fetchone [st \<leftarrow> students (student_deleted_between 4). Some (s_student_id st) = Some ''S1''] = None"
    unfolding c by (simp add: fetchone_def)
  show "real_questions (student_deleted_between 5) (Some ''E1'') = [q1_row, q2_row]"
    unfolding c using real_questions_db0 by (simp add: real_questions_def)
qed

lemma student_data_db0:
  "fetchone [st \<leftarrow> students db0. Some (s_student_id st) = Some ''S1''] \<noteq> None"
  by (simp add: fetchone_def db0_def)

section \<open>The attempt limit\<close>

text \<open>
  C1. The start handler writes nothing, and saving progress leaves the results as they
  are. A submission that succeeds adds exactly one result for its student and exam; it
  never consults the limit. Where the row from which the start handler reads
  \<open>allowed_attempts\<close> carries the value of the exam's settings row, the handler refuses
  whenever the number of stored results of a student for the exam has reached the
  exam's \<open>allowed_attempts\<close> (with 403 and that number when the student is on the roster
  of the exam's teacher), and the number of results stays within the exam's
  \<open>allowed_attempts\<close> along every run of the core operations in which each submission
  is made in a state where its student is eligible for its exam. Two submissions in a
  row, the second one not gated, exceed a limit of one.
\<close>

theorem attempt_limit_gated:
  "(gate_reads_spec d e \<longrightarrow> limit_ok d s e \<longrightarrow> gated_run d ops \<longrightarrow>
      limit_ok (run d ops) s e \<and> exam_spec (run d ops) e = exam_spec d e)
   \<and> (exam_spec d e = Some spec \<longrightarrow> gate_reads_spec d e \<longrightarrow>
        q_allowed_attempts spec \<le> num_attempts d sid (Some e) \<longrightarrow>
        isl (check_exam_eligibility d rnd sid (Some e)))
   \<and> (exam_spec d e = Some spec \<longrightarrow> gate_reads_spec d e \<longrightarrow>
        fetchone (questions_of_exam d (Some e)) = Some r \<longrightarrow>
        fetchone [st \<leftarrow> students d. Some (s_student_id st) = sid \<and> s_teacher_id st = q_teacher_id r] = Some a \<longrightarrow>
        q_allowed_attempts spec \<le> num_attempts d sid (Some e) \<longrightarrow>
        check_exam_eligibility d rnd sid (Some e) =
          Inl (No_attempts_remaining (num_attempts d sid (Some e))))
   \<and> (eligible d sid eid \<longleftrightarrow> \<not> isl (check_exam_eligibility d rnd sid eid))
   \<and> apply_operation d (Start sid eid) = d
   \<and> results (apply_operation d (Save fault sreq)) = results d
   \<and> (submit_exam d rid fault req = (Inr p, d') \<longrightarrow>
        num_attempts d' (sb_student_id req) (sb_exam_id req) =
        num_attempts d (sb_student_id req) (sb_exam_id req) + 1)"
proof -
  have inv: "gate_reads_spec d e \<longrightarrow> limit_ok d s e \<longrightarrow> gated_run d ops \<longrightarrow>
      limit_ok (run d ops) s e \<and> exam_spec (run d ops) e = exam_spec d e"
    by (intro impI conjI exam_spec_run) (rule limit_ok_gated_run)
  have ref: "exam_spec d e = Some spec \<longrightarrow> gate_reads_spec d e \<longrightarrow>
        q_allowed_attempts spec \<le> num_attempts d sid (Some e) \<longrightarrow>
        isl (check_exam_eligibility d rnd sid (Some e))"
    by (intro impI) (rule start_refuses_at_spec_limit)
  have forb: "exam_spec d e = Some spec \<longrightarrow> gate_reads_spec d e \<longrightarrow>
        fetchone (questions_of_exam d (Some e)) = Some r \<longrightarrow>
        fetchone [st \<leftarrow> students d. Some (s_student_id st) = sid \<and> s_teacher_id st = q_teacher_id r] = Some a \<longrightarrow>
        q_allowed_attempts spec \<le> num_attempts d sid (Some e) \<longrightarrow>
        check_exam_eligibility d rnd sid (Some e) =
          Inl (No_attempts_remaining (num_attempts d sid (Some e)))"
    by (intro impI) (rule start_forbidden_at_spec_limit)
  have el: "eligible d sid eid \<longleftrightarrow> \<not> isl (check_exam_eligibility d rnd sid eid)"
    by (rule eligible_iff)
  have st: "apply_operation d (Start sid eid) = d" by simp
  have sv: "results (apply_operation d (Save fault sreq)) = results d"
    by (simp add: save_progress_tables)
  have sb: "submit_exam d rid fault req = (Inr p, d') \<longrightarrow>
        num_attempts d' (sb_student_id req) (sb_exam_id req) =
        num_attempts d (sb_student_id req) (sb_exam_id req) + 1"
  proof (rule impI)
    assume "submit_exam d rid fault req = (Inr p, d')"
    from num_attempts_submit_ok[OF this, of "sb_student_id req" "sb_exam_id req"]
    show "num_attempts d' (sb_student_id req) (sb_exam_id req) =
        num_attempts d (sb_student_id req) (sb_exam_id req) + 1" by simp
  qed
  show ?thesis
    by (rule conjI[OF inv conjI[OF ref conjI[OF forb conjI[OF el conjI[OF st conjI[OF sv sb]]]]]])
qed

text \<open>
  On the small store, whose rows all carry the settings: a start, a save and a gated
  submission keep the student within the limit of one attempt, and the next start is
  refused with the count 1.
\<close>

theorem attempt_limit_gated_witness:
  "gate_reads_spec db0 ''E1''
   \<and> limit_ok db0 ''S1'' ''E1''
   \<and> gated_run db0 [Start (Some ''S1'') (Some ''E1''), Save None save0, Submit ''r1'' None submit0]
   \<and> run db0 [Start (Some ''S1'') (Some ''E1''), Save None save0, Submit ''r1'' None submit0] = db2
   \<and> limit_ok db2 ''S1'' ''E1''
   \<and> exam_spec db2 ''E1'' = Some settings_row
   \<and> gate_reads_spec db2 ''E1''
   \<and> num_attempts db2 (Some ''S1'') (Some ''E1'') = 1
   \<and> q_allowed_attempts settings_row = 1
   \<and> check_exam_eligibility db2 (\<lambda>i. 0) (Some ''S1'') (Some ''E1'') = Inl (No_attempts_remaining 1)"
proof -
  let ?ops = "[Start (Some ''S1'') (Some ''E1''), Save None save0, Submit ''r1'' None submit0]"
  have g: "gated_run db0 ?ops"
    by (simp add: save0_db0 eligible_db1 submit0_def)
  have r: "run db0 ?ops = db2" by (simp add: save0_db0 submit0_db1_db2)
  from attempt_limit_gated[where d = db0 and s = "''S1''" and e = "''E1''" and ops = ?ops,
      THEN conjunct1, THEN mp, THEN mp, THEN mp, OF gate_reads_spec_db0 limit_ok_db0 g]
  have "limit_ok (run db0 ?ops) ''S1'' ''E1'' \<and> exam_spec (run db0 ?ops) ''E1'' = exam_spec db0 ''E1''" .
  then have l: "limit_ok db2 ''S1'' ''E1''" unfolding r by (rule conjunct1)
  have n: "num_attempts db2 (Some ''S1'') (Some ''E1'') = 1"
    by (simp add: num_attempts_def db2_def)
  have al: "q_allowed_attempts settings_row = 1" by (simp add: settings_row_def)
  have le: "q_allowed_attempts settings_row \<le> num_attempts db2 (Some ''S1'') (Some ''E1'')"
    by (simp add: n al)
  have "check_exam_eligibility db2 (\<lambda>i. 0) (Some ''S1'') (Some ''E1'') =
      Inl (No_attempts_remaining (num_attempts db2 (Some ''S1'') (Some ''E1'')))"
    by (rule attempt_limit_gated[where d = db2 and e = "''E1''" and spec = settings_row
          and sid = "Some ''S1''" and rnd = "\<lambda>i. 0" and r = settings_row,
          THEN conjunct2, THEN conjunct2, THEN conjunct1, THEN mp, THEN mp, THEN mp, THEN mp, THEN mp,
          OF exam_spec_db2 gate_reads_spec_db2 fetchone_settings_db2 fetchone_student_db2 le])
  then have c: "check_exam_eligibility db2 (\<lambda>i. 0) (Some ''S1'') (Some ''E1'') = Inl (No_attempts_remaining 1)"
    by (simp add: n)
  show ?thesis
    by (intro conjI gate_reads_spec_db0 limit_ok_db0 g r l exam_spec_db2 gate_reads_spec_db2 n al c)
qed

text \<open>
  Two submissions in a row on the small store, whose exam allows one attempt: both
  succeed, and the student ends with two results.
\<close>

theorem attempt_limit_counterexample:
  "limit_ok db0 ''S1'' ''E1''
   \<and> exam_spec db0 ''E1'' = Some settings_row
   \<and> q_allowed_attempts settings_row = 1
   \<and> \<not> isl (fst (submit_exam db0 ''r1'' None submit0))
   \<and> \<not> isl (fst (submit_exam db2 ''r2'' None submit0))
   \<and> apply_operation db0 (Submit ''r1'' None submit0) = db2
   \<and> num_attempts (run db0 [Submit ''r1'' None submit0, Submit ''r2'' None submit0]) (Some ''S1'') (Some ''E1'') = 2
   \<and> \<not> limit_ok (run db0 [Submit ''r1'' None submit0, Submit ''r2'' None submit0]) ''S1'' ''E1''"
proof -
  let ?d3 = "run db0 [Submit ''r1'' None submit0, Submit ''r2'' None submit0]"
  have d3: "?d3 = db2\<lparr>results := results db2 @ [\<lparr>r_result_id = ''r2'', r_exam_id = ''E1'', r_student_id = ''S1'',
         r_teacher_id = ''T1'', r_student_name = ''Ann'', r_score = 1,
         r_answers = [(''Q1'', ''A''), (''Q2'', ''C'')]\<rparr>]\<rparr>"
    by (simp add: submit0_db0_db2 submit0_db2)
  have n: "num_attempts ?d3 (Some ''S1'') (Some ''E1'') = 2"
    unfolding d3 by (simp add: num_attempts_def db2_def)
  have q: "exam_spec ?d3 ''E1'' = Some settings_row"
    by (simp only: exam_spec_run exam_spec_db0)
  have al: "q_allowed_attempts settings_row = 1" by (simp add: settings_row_def)
  have nl: "\<not> limit_ok ?d3 ''S1'' ''E1''"
    unfolding limit_ok_def q using n by (simp add: al)
  have s1: "\<not> isl (fst (submit_exam db0 ''r1'' None submit0))" by (simp add: submit0_db0)
  have s2: "\<not> isl (fst (submit_exam db2 ''r2'' None submit0))" by (simp add: submit0_db2)
  have ap: "apply_operation db0 (Submit ''r1'' None submit0) = db2" by (simp add: submit0_db0_db2)
  show ?thesis
    by (intro conjI limit_ok_db0 exam_spec_db0 al s1 s2 ap n nl)
qed

text \<open>
  The premise on the row the start handler reads is needed. On the store whose
  question rows still carry three attempts while the settings row carries one, three
  submissions, each made by an eligible student, leave three results.
\<close>

lemma stale_rows_gated_run:
  "exam_spec db_stale ''E1'' = Some settings_row
   \<and> q_allowed_attempts settings_row = 1
   \<and> \<not> gate_reads_spec db_stale ''E1''
   \<and> limit_ok db_stale ''S1'' ''E1''
   \<and> gated_run db_stale [Submit ''r1'' None submit0, Submit ''r2'' None submit0, Submit ''r3'' None submit0]
   \<and> num_attempts (run db_stale [Submit ''r1'' None submit0, Submit ''r2'' None submit0,
        Submit ''r3'' None submit0]) (Some ''S1'') (Some ''E1'') = 3"
proof -
  define s1 where "s1 = snd (submit_exam db_stale ''r1'' None submit0)"
  define s2 where "s2 = snd (submit_exam s1 ''r2'' None submit0)"
  define s3 where "s3 = snd (submit_exam s2 ''r3'' None submit0)"
  have r0: "results db_stale = []" by (simp add: db_stale_def db0_def)
  have n0: "num_attempts db_stale (Some ''S1'') (Some ''E1'') = 0"
    by (simp add: num_attempts_def r0)
  have f1: "''r1'' \<notin> set (map r_result_id (results db_stale))" by (simp add: r0)
  note a1 = stale_submit[OF refl refl f1, folded s1_def]
  from a1 have q1: "questions s1 = questions db_stale" and t1: "students s1 = students db_stale"
    and i1: "map r_result_id (results s1) = [''r1'']"
    and n1: "num_attempts s1 (Some ''S1'') (Some ''E1'') = 1"
    by (simp_all add: r0 n0)
  have f2: "''r2'' \<notin> set (map r_result_id (results s1))" by (simp add: i1)
  note a2 = stale_submit[OF q1 t1 f2, folded s2_def]
  from a2 have q2: "questions s2 = questions db_stale" and t2: "students s2 = students db_stale"
    and i2: "map r_result_id (results s2) = [''r1'', ''r2'']"
    and n2: "num_attempts s2 (Some ''S1'') (Some ''E1'') = 2"
    by (simp_all add: i1 n1)
  have f3: "''r3'' \<notin> set (map r_result_id (results s2))" by (simp add: i2)
  note a3 = stale_submit[OF q2 t2 f3, folded s3_def]
  from a3 have n3: "num_attempts s3 (Some ''S1'') (Some ''E1'') = 3" by (simp add: n2)
  have e0: "eligible db_stale (Some ''S1'') (Some ''E1'')"
    by (rule stale_eligible[OF refl refl]) (simp add: n0)
  have e1: "eligible s1 (Some ''S1'') (Some ''E1'')"
    by (rule stale_eligible[OF q1 t1]) (simp add: n1)
  have e2: "eligible s2 (Some ''S1'') (Some ''E1'')"
    by (rule stale_eligible[OF q2 t2]) (simp add: n2)
  have ids: "sb_student_id submit0 = Some ''S1''" "sb_exam_id submit0 = Some ''E1''"
    by (simp_all add: submit0_def)
  have g: "gated_run db_stale [Submit ''r1'' None submit0, Submit ''r2'' None submit0, Submit ''r3'' None submit0]"
    using e0 e1 e2 by (simp add: ids s1_def s2_def)
  have r: "run db_stale [Submit ''r1'' None submit0, Submit ''r2'' None submit0, Submit ''r3'' None submit0] = s3"
    by (simp add: s1_def s2_def s3_def)
  have al: "q_allowed_attempts settings_row = 1" by (simp add: settings_row_def)
  have ng: "\<not> gate_reads_spec db_stale ''E1''"
    by (simp add: gate_reads_spec_def exam_spec_stale gate_row_stale al)
  have l0: "limit_ok db_stale ''S1'' ''E1''"
    by (simp add: limit_ok_def exam_spec_stale n0 al)
  show ?thesis
    unfolding r by (intro conjI exam_spec_stale al ng l0 g[unfolded r] n3)
qed

section \<open>Grading\<close>

text \<open>
  C2. Under the primary key of the question table, a submission that succeeds returns
  as score the number of real questions of the exam, as stored at that moment, whose
  \<open>correct_option\<close> is the answer submitted under their \<open>question_text\<close>.
  A submission with all its fields, a fresh id and a non-empty question set succeeds
  on a store that accepts the write. Whether a submission succeeds does not depend on
  the content of the answer map, and
  two answer maps that agree on the texts of the real questions (so any entries under
  other texts, and any missing answers) get the same response: an unanswered question
  and an entry for an unknown text add nothing and raise nothing.
\<close>

theorem submit_exam_score:
  assumes "pk_questions d"
  shows "(fst (submit_exam d rid fault req) = Inr p \<longrightarrow>
            (\<exists>a. sb_answers req = Some a \<and>
               score p = int (length [q \<leftarrow> real_questions d (sb_exam_id req).
                                        map_of a (q_question_text q) = Some (q_correct_option q)])))
       \<and> isl (fst (submit_exam d rid fault (req\<lparr>sb_answers := Some a1\<rparr>))) =
          isl (fst (submit_exam d rid fault (req\<lparr>sb_answers := Some a2\<rparr>)))
       \<and> ((\<forall>q \<in> set (real_questions d (sb_exam_id req)).
              map_of a1 (q_question_text q) = map_of a2 (q_question_text q)) \<longrightarrow>
            fst (submit_exam d rid fault (req\<lparr>sb_answers := Some a1\<rparr>)) =
            fst (submit_exam d rid fault (req\<lparr>sb_answers := Some a2\<rparr>)))
       \<and> (sb_exam_id req = Some e \<and> sb_student_id req = Some s \<and> sb_student_name req = Some n
          \<and> sb_teacher_id req = Some t \<and> sb_answers req = Some a
          \<and> real_questions d (Some e) \<noteq> [] \<and> rid \<notin> set (map r_result_id (results d)) \<longrightarrow>
        (\<exists>p' d'. submit_exam d rid None req = (Inr p', d')))"
proof (intro conjI impI)
  assume "fst (submit_exam d rid fault req) = Inr p"
  with assms show "\<exists>a. sb_answers req = Some a \<and>
     score p = int (length [q \<leftarrow> real_questions d (sb_exam_id req).
                              map_of a (q_question_text q) = Some (q_correct_option q)])"
    by (rule submit_score_count)
next
  show "isl (fst (submit_exam d rid fault (req\<lparr>sb_answers := Some a1\<rparr>))) =
        isl (fst (submit_exam d rid fault (req\<lparr>sb_answers := Some a2\<rparr>)))"
    by (rule submit_isl_answers)
next
  assume "\<forall>q \<in> set (real_questions d (sb_exam_id req)).
            map_of a1 (q_question_text q) = map_of a2 (q_question_text q)"
  then show "fst (submit_exam d rid fault (req\<lparr>sb_answers := Some a1\<rparr>)) =
             fst (submit_exam d rid fault (req\<lparr>sb_answers := Some a2\<rparr>))"
    by (rule submit_answers_cong)
next
  assume "sb_exam_id req = Some e \<and> sb_student_id req = Some s \<and> sb_student_name req = Some n
          \<and> sb_teacher_id req = Some t \<and> sb_answers req = Some a
          \<and> real_questions d (Some e) \<noteq> [] \<and> rid \<notin> set (map r_result_id (results d))"
  then show "\<exists>p' d'. submit_exam d rid None req = (Inr p', d')"
    using submit_ok[of req e s n t a d rid] by blast
qed

text \<open>
  On the small store the answers Q1: A and Q2: C score 1, and an entry for a text that
  is no question of the exam changes nothing.
\<close>

theorem submit_exam_score_witness:
  "pk_questions db0
   \<and> fst (submit_exam db0 ''r1'' None submit0) = Inr \<lparr>score = 1, analysis_report =
        [\<lparr>e_question_text = ''Q1'', e_options = [(''A'', ''one''), (''B'', ''two'')],
          e_student_answer = Some ''A'', e_correct_answer = Some ''A'', e_is_correct = True\<rparr>,
         \<lparr>e_question_text = ''Q2'', e_options = [(''B'', ''three''), (''C'', ''four'')],
          e_student_answer = Some ''C'', e_correct_answer = Some ''B'', e_is_correct = False\<rparr>]\<rparr>
   \<and> int (length [q \<leftarrow> real_questions db0 (Some ''E1'').
         map_of [(''Q1'', ''A''), (''Q2'', ''C'')] (q_question_text q) = Some (q_correct_option q)]) = 1
   \<and> fst (submit_exam db0 ''r1'' None (submit0\<lparr>sb_answers := Some [(''Q1'', ''A''), (''Zzz'', ''B'')]\<rparr>)) =
     fst (submit_exam db0 ''r1'' None (submit0\<lparr>sb_answers := Some [(''Q1'', ''A'')]\<rparr>))
   \<and> real_questions db0 (Some ''E1'') \<noteq> [] \<and> ''r1'' \<notin> set (map r_result_id (results db0))
   \<and> (\<exists>p d'. submit_exam db0 ''r1'' None submit0 = (Inr p, d'))"
proof -
  let ?p = "\<lparr>score = 1, analysis_report =
        [\<lparr>e_question_text = ''Q1'', e_options = [(''A'', ''one''), (''B'', ''two'')],
          e_student_answer = Some ''A'', e_correct_answer = Some ''A'', e_is_correct = True\<rparr>,
         \<lparr>e_question_text = ''Q2'', e_options = [(''B'', ''three''), (''C'', ''four'')],
          e_student_answer = Some ''C'', e_correct_answer = Some ''B'', e_is_correct = False\<rparr>]\<rparr>"
  have ok: "fst (submit_exam db0 ''r1'' None submit0) = Inr ?p" by (simp add: submit0_db0)
  have same: "\<forall>q \<in> set (real_questions db0 (sb_exam_id submit0)).
      map_of [(''Q1'', ''A''), (''Zzz'', ''B'')] (q_question_text q) = map_of [(''Q1'', ''A'')] (q_question_text q)"
    by (simp add: submit0_def real_questions_db0 q1_row_def q2_row_def settings_row_def)
  note t = submit_exam_score[OF pk_db0, where rid = "''r1''" and fault = None and req = submit0 and p = ?p
      and ?a1.0 = "[(''Q1'', ''A''), (''Zzz'', ''B'')]" and ?a2.0 = "[(''Q1'', ''A'')]"
      and e = "''E1''" and s = "''S1''" and n = "''Ann''" and t = "''T1''"
      and a = "[(''Q1'', ''A''), (''Q2'', ''C'')]"]
  have pre: "real_questions db0 (Some ''E1'') \<noteq> [] \<and> ''r1'' \<notin> set (map r_result_id (results db0))"
    by (simp add: real_questions_db0) (simp add: db0_def)
  have "sb_exam_id submit0 = Some ''E1'' \<and> sb_student_id submit0 = Some ''S1''
      \<and> sb_student_name submit0 = Some ''Ann'' \<and> sb_teacher_id submit0 = Some ''T1''
      \<and> sb_answers submit0 = Some [(''Q1'', ''A''), (''Q2'', ''C'')]"
    by (simp add: submit0_def)
  with t pre have tot: "\<exists>p d'. submit_exam db0 ''r1'' None submit0 = (Inr p, d')" by blast
  from t ok have "\<exists>a. sb_answers submit0 = Some a \<and>
      score ?p = int (length [q \<leftarrow> real_questions db0 (sb_exam_id submit0).
         map_of a (q_question_text q) = Some (q_correct_option q)])" by blast
  then have c: "int (length [q \<leftarrow> real_questions db0 (Some ''E1'').
         map_of [(''Q1'', ''A''), (''Q2'', ''C'')] (q_question_text q) = Some (q_correct_option q)]) = 1"
    by (simp add: submit0_def)
  from t same have "fst (submit_exam db0 ''r1'' None (submit0\<lparr>sb_answers := Some [(''Q1'', ''A''), (''Zzz'', ''B'')]\<rparr>)) =
     fst (submit_exam db0 ''r1'' None (submit0\<lparr>sb_answers := Some [(''Q1'', ''A'')]\<rparr>))" by blast
  with pk_db0 ok c pre tot show ?thesis by blast
qed

section \<open>Submission is atomic\<close>

text \<open>
  C3. A submission that succeeds had all its fields and an id that no stored result
  carries; it leaves the store with exactly one more result row (that id, the score it
  returns, the answer map as submitted) and with no in-progress row for its student and
  exam, every other row being as before. A submission that fails, and one fails
  whenever the insert, the delete or the commit raises, answers 500 and leaves the
  store as it was: neither the insert nor the delete is applied.
\<close>

theorem submit_exam_atomic:
  "(submit_exam d rid fault req = (Inr p, d') \<longrightarrow>
      (\<exists>e s n t a. sb_exam_id req = Some e \<and> sb_student_id req = Some s \<and> sb_student_name req = Some n
         \<and> sb_teacher_id req = Some t \<and> sb_answers req = Some a
         \<and> rid \<notin> set (map r_result_id (results d))
         \<and> results d' = results d @ [\<lparr>r_result_id = rid, r_exam_id = e, r_student_id = s,
              r_teacher_id = t, r_student_name = n, r_score = score p, r_answers = a\<rparr>]
         \<and> in_progress_exams d' = [r \<leftarrow> in_progress_exams d. \<not> (p_student_id r = s \<and> p_exam_id r = e)]
         \<and> in_progress_of d' s e = []
         \<and> students d' = students d \<and> questions d' = questions d))
   \<and> (fst (submit_exam d rid fault req) = Inl err \<longrightarrow>
        snd (submit_exam d rid fault req) = d \<and> status err = 500)
   \<and> (fault \<noteq> None \<longrightarrow> isl (fst (submit_exam d rid fault req)))"
proof -
  have ok: "\<exists>e s n t a. sb_exam_id req = Some e \<and> sb_student_id req = Some s \<and> sb_student_name req = Some n
         \<and> sb_teacher_id req = Some t \<and> sb_answers req = Some a
         \<and> rid \<notin> set (map r_result_id (results d))
         \<and> results d' = results d @ [\<lparr>r_result_id = rid, r_exam_id = e, r_student_id = s,
              r_teacher_id = t, r_student_name = n, r_score = score p, r_answers = a\<rparr>]
         \<and> in_progress_exams d' = [r \<leftarrow> in_progress_exams d. \<not> (p_student_id r = s \<and> p_exam_id r = e)]
         \<and> in_progress_of d' s e = []
         \<and> students d' = students d \<and> questions d' = questions d"
    if "submit_exam d rid fault req = (Inr p, d')"
  proof -
    from submit_InrD[OF that] obtain e s n t a where
      f: "sb_exam_id req = Some e" "sb_student_id req = Some s" "sb_student_name req = Some n"
         "sb_teacher_id req = Some t" "sb_answers req = Some a"
         "rid \<notin> set (map r_result_id (results d))"
      and d': "d' = d\<lparr>results := results d @ [\<lparr>r_result_id = rid, r_exam_id = e, r_student_id = s, r_teacher_id = t,
                   r_student_name = n, r_score = score p, r_answers = a\<rparr>],
                in_progress_exams := [r \<leftarrow> in_progress_exams d. \<not> (p_student_id r = s \<and> p_exam_id r = e)]\<rparr>"
      by blast
    have "in_progress_of d' s e = []" by (simp add: d' in_progress_of_def)
    with f d' show ?thesis by simp
  qed
  have err: "snd (submit_exam d rid fault req) = d \<and> status err = 500"
    if "fst (submit_exam d rid fault req) = Inl err"
    using that by (rule submit_InlD)
  have flt: "isl (fst (submit_exam d rid fault req))" if "fault \<noteq> None"
    using that by (auto simp: submit_fault_fails)
  from ok err flt show ?thesis by blast
qed

text \<open>
  On the small store with saved progress: the submission leaves one result and no
  in-progress row; with a commit that raises it answers 500 and leaves the store as it
  was.
\<close>

theorem submit_exam_atomic_witness:
  "in_progress_of db1 ''S1'' ''E1'' \<noteq> []
   \<and> results db1 = []
   \<and> results (snd (submit_exam db1 ''r1'' None submit0)) =
       [\<lparr>r_result_id = ''r1'', r_exam_id = ''E1'', r_student_id = ''S1'', r_teacher_id = ''T1'',
         r_student_name = ''Ann'', r_score = 1, r_answers = [(''Q1'', ''A''), (''Q2'', ''C'')]\<rparr>]
   \<and> in_progress_of (snd (submit_exam db1 ''r1'' None submit0)) ''S1'' ''E1'' = []
   \<and> fst (submit_exam db1 ''r1'' (Some Commit_fails) submit0) = Inl (An_error_occurred OperationalError)
   \<and> snd (submit_exam db1 ''r1'' (Some Commit_fails) submit0) = db1"
proof -
  obtain p d' where ok: "submit_exam db1 ''r1'' None submit0 = (Inr p, d')"
    by (simp add: submit0_db1)
  have p: "score p = 1" using ok by (auto simp: submit0_db1)
  from submit_exam_atomic[of db1 "''r1''" None submit0 p d'] ok
  have "\<exists>e s n t a. sb_exam_id submit0 = Some e \<and> sb_student_id submit0 = Some s \<and> sb_student_name submit0 = Some n
         \<and> sb_teacher_id submit0 = Some t \<and> sb_answers submit0 = Some a
         \<and> ''r1'' \<notin> set (map r_result_id (results db1))
         \<and> results d' = results db1 @ [\<lparr>r_result_id = ''r1'', r_exam_id = e, r_student_id = s,
              r_teacher_id = t, r_student_name = n, r_score = score p, r_answers = a\<rparr>]
         \<and> in_progress_exams d' = [r \<leftarrow> in_progress_exams db1. \<not> (p_student_id r = s \<and> p_exam_id r = e)]
         \<and> in_progress_of d' s e = []
         \<and> students d' = students db1 \<and> questions d' = questions db1" by blast
  then have r: "results d' = results db1 @ [\<lparr>r_result_id = ''r1'', r_exam_id = ''E1'', r_student_id = ''S1'',
              r_teacher_id = ''T1'', r_student_name = ''Ann'', r_score = 1, r_answers = [(''Q1'', ''A''), (''Q2'', ''C'')]\<rparr>]"
     and i: "in_progress_of d' ''S1'' ''E1'' = []"
    by (auto simp: submit0_def p)
  have e: "fst (submit_exam db1 ''r1'' (Some Commit_fails) submit0) = Inl (An_error_occurred OperationalError)"
    by (simp add: submit0_db1_commit_fails)
  with submit_exam_atomic[of db1 "''r1''" "Some Commit_fails" submit0 _ _ "An_error_occurred OperationalError"]
  have u: "snd (submit_exam db1 ''r1'' (Some Commit_fails) submit0) = db1" by blast
  have a: "in_progress_of db1 ''S1'' ''E1'' \<noteq> []" "results db1 = []"
    by (simp_all add: in_progress_of_def db1_def db0_def)
  from a r i e u ok show ?thesis by simp
qed

section \<open>Resuming a session\<close>

text \<open>
  C4. A start that succeeds returns, when the store holds an in-progress row for the
  student and the exam, that row's answers, question status and time left, and
  otherwise empty answers, empty question status and sixty times the exam's duration.
  In particular, after a successful save for a student and an exam, followed by any
  operations that do not write that session (no save and no submission for the same
  pair), a start that succeeds returns exactly the answers, status and time of that
  save, and these answers and status are not blank.
\<close>

theorem start_resumes:
  "(check_exam_eligibility d rnd sid eid = Inr p \<longrightarrow>
      (\<exists>spec. fetchone (questions_of_exam d eid) = Some spec
         \<and> d_duration (sp_exam_data p) = q_duration spec
         \<and> (case fetchone [r \<leftarrow> in_progress_exams d. Some (p_student_id r) = sid \<and> Some (p_exam_id r) = eid] of
              Some r \<Rightarrow> d_answers (sp_exam_data p) = p_answers r
                      \<and> d_question_status (sp_exam_data p) = p_question_status r
                      \<and> d_time_left (sp_exam_data p) = p_time_left r
            | None \<Rightarrow> d_answers (sp_exam_data p) = [] \<and> d_question_status (sp_exam_data p) = []
                      \<and> d_time_left (sp_exam_data p) = q_duration spec * 60)))
   \<and> (save_progress d fault sreq = (Inr (), d1) \<longrightarrow>
        sv_student_id sreq = Some s \<longrightarrow> sv_exam_id sreq = Some e \<longrightarrow>
        (\<forall>x \<in> set ops. \<not> touches s e x) \<longrightarrow>
        check_exam_eligibility (run d1 ops) rnd (Some s) (Some e) = Inr p' \<longrightarrow>
          sv_answers sreq = Some (d_answers (sp_exam_data p'))
        \<and> sv_question_status sreq = Some (d_question_status (sp_exam_data p'))
        \<and> sv_time_left sreq = Some (d_time_left (sp_exam_data p'))
        \<and> d_answers (sp_exam_data p') \<noteq> [] \<and> d_question_status (sp_exam_data p') \<noteq> [])"
proof -
  have a: "\<exists>spec. fetchone (questions_of_exam d eid) = Some spec
         \<and> d_duration (sp_exam_data p) = q_duration spec
         \<and> (case fetchone [r \<leftarrow> in_progress_exams d. Some (p_student_id r) = sid \<and> Some (p_exam_id r) = eid] of
              Some r \<Rightarrow> d_answers (sp_exam_data p) = p_answers r
                      \<and> d_question_status (sp_exam_data p) = p_question_status r
                      \<and> d_time_left (sp_exam_data p) = p_time_left r
            | None \<Rightarrow> d_answers (sp_exam_data p) = [] \<and> d_question_status (sp_exam_data p) = []
                      \<and> d_time_left (sp_exam_data p) = q_duration spec * 60)"
    if "check_exam_eligibility d rnd sid eid = Inr p"
    using start_InrD[OF that] by blast
  have b: "sv_answers sreq = Some (d_answers (sp_exam_data p'))
        \<and> sv_question_status sreq = Some (d_question_status (sp_exam_data p'))
        \<and> sv_time_left sreq = Some (d_time_left (sp_exam_data p'))
        \<and> d_answers (sp_exam_data p') \<noteq> [] \<and> d_question_status (sp_exam_data p') \<noteq> []"
    if sv: "save_progress d fault sreq = (Inr (), d1)" and s: "sv_student_id sreq = Some s"
      and e: "sv_exam_id sreq = Some e" and u: "\<forall>x \<in> set ops. \<not> touches s e x"
      and st: "check_exam_eligibility (run d1 ops) rnd (Some s) (Some e) = Inr p'"
  proof -
    from saved_row[OF sv s e] obtain r where r: "in_progress_of d1 s e = [r]"
      and v: "sv_answers sreq = Some (p_answers r)" "sv_question_status sreq = Some (p_question_status r)"
        "sv_time_left sreq = Some (p_time_left r)" "p_answers r \<noteq> []" "p_question_status r \<noteq> []"
      by blast
    have "in_progress_of (run d1 ops) s e = [r]" using in_progress_of_run[OF u] r by simp
    then have "fetchone [r \<leftarrow> in_progress_exams (run d1 ops).
        Some (p_student_id r) = Some s \<and> Some (p_exam_id r) = Some e] = Some r"
      unfolding in_progress_lookup by (simp add: fetchone_def)
    with start_InrD[OF st] have "d_answers (sp_exam_data p') = p_answers r
        \<and> d_question_status (sp_exam_data p') = p_question_status r
        \<and> d_time_left (sp_exam_data p') = p_time_left r" by auto
    with v show ?thesis by simp
  qed
  from a b show ?thesis by blast
qed

text \<open>
  On the small store: after the save with 300 seconds left the start returns the saved
  answers, status and 300 seconds; without a save it returns blank maps and 1800 seconds.
\<close>

theorem start_resumes_witness:
  "save_progress db0 None save0 = (Inr (), db1)
   \<and> (\<exists>p. check_exam_eligibility (run db1 [Start (Some ''S1'') (Some ''E1'')]) (\<lambda>i. 0) (Some ''S1'') (Some ''E1'') = Inr p
        \<and> d_answers (sp_exam_data p) = [(''Q1'', ''A'')]
        \<and> d_question_status (sp_exam_data p) = [(''Q1'', ''answered'')]
        \<and> d_time_left (sp_exam_data p) = 300)
   \<and> (\<exists>p. check_exam_eligibility db0 (\<lambda>i. 0) (Some ''S1'') (Some ''E1'') = Inr p
        \<and> d_answers (sp_exam_data p) = [] \<and> d_question_status (sp_exam_data p) = []
        \<and> d_duration (sp_exam_data p) = 30 \<and> d_time_left (sp_exam_data p) = 1800)"
proof -
  let ?ops = "[Start (Some ''S1'') (Some ''E1'')]"
  obtain p where p: "check_exam_eligibility (run db1 ?ops) (\<lambda>i. 0) (Some ''S1'') (Some ''E1'') = Inr p"
    using start_db1 by auto
  have u: "\<forall>x \<in> set ?ops. \<not> touches ''S1'' ''E1'' x" by simp
  from start_resumes[where d = db0 and fault = None and sreq = save0 and ?d1.0 = db1 and s = "''S1''"
      and e = "''E1''" and ops = ?ops and rnd = "\<lambda>i. 0" and p' = p] save0_db0 u p
  have "sv_answers save0 = Some (d_answers (sp_exam_data p))
        \<and> sv_question_status save0 = Some (d_question_status (sp_exam_data p))
        \<and> sv_time_left save0 = Some (d_time_left (sp_exam_data p))"
    by (simp add: save0_def)
  then have w1: "d_answers (sp_exam_data p) = [(''Q1'', ''A'')]
        \<and> d_question_status (sp_exam_data p) = [(''Q1'', ''answered'')]
        \<and> d_time_left (sp_exam_data p) = 300"
    by (simp add: save0_def)
  obtain q where q: "check_exam_eligibility db0 (\<lambda>i. 0) (Some ''S1'') (Some ''E1'') = Inr q"
    using start_db0 by auto
  have n: "fetchone [r \<leftarrow> in_progress_exams db0. Some (p_student_id r) = Some ''S1'' \<and> Some (p_exam_id r) = Some ''E1'']
      = None" by (simp add: fetchone_def db0_def)
  from start_resumes[where d = db0 and rnd = "\<lambda>i. 0" and sid = "Some ''S1''" and eid = "Some ''E1''" and p = q] q
  obtain spec where sp: "fetchone (questions_of_exam db0 (Some ''E1'')) = Some spec"
    and du: "d_duration (sp_exam_data q) = q_duration spec"
    and cs: "(case fetchone [r \<leftarrow> in_progress_exams db0. Some (p_student_id r) = Some ''S1'' \<and> Some (p_exam_id r) = Some ''E1''] of
              Some r \<Rightarrow> d_answers (sp_exam_data q) = p_answers r
                      \<and> d_question_status (sp_exam_data q) = p_question_status r
                      \<and> d_time_left (sp_exam_data q) = p_time_left r
            | None \<Rightarrow> d_answers (sp_exam_data q) = [] \<and> d_question_status (sp_exam_data q) = []
                      \<and> d_time_left (sp_exam_data q) = q_duration spec * 60)"
    by blast
  from sp have spec: "spec = settings_row" by (simp add: fetchone_settings_db0)
  from cs have "d_answers (sp_exam_data q) = [] \<and> d_question_status (sp_exam_data q) = []
        \<and> d_time_left (sp_exam_data q) = q_duration spec * 60"
    unfolding n by simp
  with du have w2: "d_answers (sp_exam_data q) = [] \<and> d_question_status (sp_exam_data q) = []
        \<and> d_duration (sp_exam_data q) = 30 \<and> d_time_left (sp_exam_data q) = 1800"
    by (simp add: spec settings_row_def)
  from save0_db0 p w1 q w2 show ?thesis by blast
qed

section \<open>The analysis report\<close>

text \<open>
  C5. Under the primary key of the question table, the analysis report of a submission
  that succeeds has one record per real question of the exam as stored at that moment,
  in the order of the stored question list: the question's text and options, the answer
  submitted under its text (if any), its correct option, and whether the two agree.
  A submission with all its fields, a fresh id and a non-empty question set succeeds
  on a store that accepts the write. The response is the same whatever the \<open>enable_analysis_report\<close> values of the rows:
  the flag gates neither the computation nor the return of the report.
\<close>

theorem submit_exam_report:
  assumes "pk_questions d"
  shows "(fst (submit_exam d rid fault req) = Inr p \<longrightarrow>
      (\<exists>a. sb_answers req = Some a \<and>
         analysis_report p = map (\<lambda>q. \<lparr>e_question_text = q_question_text q, e_options = q_options q,
             e_student_answer = map_of a (q_question_text q),
             e_correct_answer = Some (q_correct_option q),
             e_is_correct = (map_of a (q_question_text q) = Some (q_correct_option q))\<rparr>)
           (real_questions d (sb_exam_id req)))
       \<and> length (analysis_report p) = length (real_questions d (sb_exam_id req))
       \<and> map e_question_text (analysis_report p) = map q_question_text (real_questions d (sb_exam_id req)))
   \<and> fst (submit_exam (d\<lparr>questions := map (\<lambda>q. q\<lparr>q_enable_analysis_report := flag q\<rparr>) (questions d)\<rparr>)
            rid fault req) = fst (submit_exam d rid fault req)
   \<and> (sb_exam_id req = Some e \<and> sb_student_id req = Some s \<and> sb_student_name req = Some n
          \<and> sb_teacher_id req = Some t \<and> sb_answers req = Some a'
          \<and> real_questions d (Some e) \<noteq> [] \<and> rid \<notin> set (map r_result_id (results d)) \<longrightarrow>
        (\<exists>p' d'. submit_exam d rid None req = (Inr p', d')))"
proof -
  have tot: "\<exists>p' d'. submit_exam d rid None req = (Inr p', d')"
    if "sb_exam_id req = Some e \<and> sb_student_id req = Some s \<and> sb_student_name req = Some n
          \<and> sb_teacher_id req = Some t \<and> sb_answers req = Some a'
          \<and> real_questions d (Some e) \<noteq> [] \<and> rid \<notin> set (map r_result_id (results d))"
    using that submit_ok[of req e s n t a' d rid] by blast
  have "(\<exists>a. sb_answers req = Some a \<and>
         analysis_report p = map (\<lambda>q. \<lparr>e_question_text = q_question_text q, e_options = q_options q,
             e_student_answer = map_of a (q_question_text q),
             e_correct_answer = Some (q_correct_option q),
             e_is_correct = (map_of a (q_question_text q) = Some (q_correct_option q))\<rparr>)
           (real_questions d (sb_exam_id req)))
       \<and> length (analysis_report p) = length (real_questions d (sb_exam_id req))
       \<and> map e_question_text (analysis_report p) = map q_question_text (real_questions d (sb_exam_id req))"
    if ok: "fst (submit_exam d rid fault req) = Inr p"
  proof -
    from submit_report_rows[OF assms ok] obtain a where a: "sb_answers req = Some a"
      and r: "analysis_report p = map (\<lambda>q. \<lparr>e_question_text = q_question_text q, e_options = q_options q,
             e_student_answer = map_of a (q_question_text q),
             e_correct_answer = Some (q_correct_option q),
             e_is_correct = (map_of a (q_question_text q) = Some (q_correct_option q))\<rparr>)
           (real_questions d (sb_exam_id req))" by blast
    have "length (analysis_report p) = length (real_questions d (sb_exam_id req))"
      by (simp add: r)
    moreover have "map e_question_text (analysis_report p) = map q_question_text (real_questions d (sb_exam_id req))"
      by (simp add: r comp_def)
    ultimately show ?thesis using a r by blast
  qed
  with submit_flag tot show ?thesis by blast
qed

text \<open>
  On the small store, whose rows have the flag off, the report lists Q1 then Q2.
\<close>

theorem submit_exam_report_witness:
  "pk_questions db0
   \<and> q_enable_analysis_report settings_row = 0
   \<and> map e_question_text (analysis_report
        \<lparr>score = 1, analysis_report =
          [\<lparr>e_question_text = ''Q1'', e_options = [(''A'', ''one''), (''B'', ''two'')],
            e_student_answer = Some ''A'', e_correct_answer = Some ''A'', e_is_correct = True\<rparr>,
           \<lparr>e_question_text = ''Q2'', e_options = [(''B'', ''three''), (''C'', ''four'')],
            e_student_answer = Some ''C'', e_correct_answer = Some ''B'', e_is_correct = False\<rparr>]\<rparr>)
      = map q_question_text (real_questions db0 (Some ''E1''))
   \<and> fst (submit_exam db0 ''r1'' None submit0) =
      Inr \<lparr>score = 1, analysis_report =
          [\<lparr>e_question_text = ''Q1'', e_options = [(''A'', ''one''), (''B'', ''two'')],
            e_student_answer = Some ''A'', e_correct_answer = Some ''A'', e_is_correct = True\<rparr>,
           \<lparr>e_question_text = ''Q2'', e_options = [(''B'', ''three''), (''C'', ''four'')],
            e_student_answer = Some ''C'', e_correct_answer = Some ''B'', e_is_correct = False\<rparr>]\<rparr>
   \<and> real_questions db0 (Some ''E1'') \<noteq> [] \<and> ''r1'' \<notin> set (map r_result_id (results db0))
   \<and> (\<exists>p d'. submit_exam db0 ''r1'' None submit0 = (Inr p, d'))"
proof -
  let ?p = "\<lparr>score = 1, analysis_report =
          [\<lparr>e_question_text = ''Q1'', e_options = [(''A'', ''one''), (''B'', ''two'')],
            e_student_answer = Some ''A'', e_correct_answer = Some ''A'', e_is_correct = True\<rparr>,
           \<lparr>e_question_text = ''Q2'', e_options = [(''B'', ''three''), (''C'', ''four'')],
            e_student_answer = Some ''C'', e_correct_answer = Some ''B'', e_is_correct = False\<rparr>]\<rparr>"
  have ok: "fst (submit_exam db0 ''r1'' None submit0) = Inr ?p" by (simp add: submit0_db0)
  note t = submit_exam_report[OF pk_db0, where rid = "''r1''" and fault = None and req = submit0 and p = ?p
      and e = "''E1''" and s = "''S1''" and n = "''Ann''" and t = "''T1''"
      and a' = "[(''Q1'', ''A''), (''Q2'', ''C'')]"]
  have pre: "real_questions db0 (Some ''E1'') \<noteq> [] \<and> ''r1'' \<notin> set (map r_result_id (results db0))"
    by (simp add: real_questions_db0) (simp add: db0_def)
  have "sb_exam_id submit0 = Some ''E1'' \<and> sb_student_id submit0 = Some ''S1''
      \<and> sb_student_name submit0 = Some ''Ann'' \<and> sb_teacher_id submit0 = Some ''T1''
      \<and> sb_answers submit0 = Some [(''Q1'', ''A''), (''Q2'', ''C'')]"
    by (simp add: submit0_def)
  with t pre have tot: "\<exists>p d'. submit_exam db0 ''r1'' None submit0 = (Inr p, d')" by blast
  from t ok
  have "map e_question_text (analysis_report ?p) = map q_question_text (real_questions db0 (sb_exam_id submit0))"
    by blast
  then have "map e_question_text (analysis_report ?p) = map q_question_text (real_questions db0 (Some ''E1''))"
    by (simp add: submit0_def)
  moreover have "q_enable_analysis_report settings_row = 0" by (simp add: settings_row_def)
  ultimately show ?thesis using pk_db0 ok pre tot by blast
qed

section \<open>Saving progress\<close>

text \<open>
  C6. Saving progress answers 400 exactly when a field fails Python's truth test:
  \<open>student_id\<close>, \<open>exam_id\<close>, \<open>teacher_id\<close>, \<open>answers\<close> or \<open>question_status\<close> missing
  or empty, or \<open>time_left\<close> missing (a \<open>time_left\<close> of 0 passes). A request that
  passes, with a \<open>time_left\<close> that fits the 64-bit integer column, on a store that
  accepts the write, succeeds: afterwards the only in-progress row of its student and
  exam is the one just sent (the earlier answers, status and time are replaced, not
  merged), every other session and every other table being as before. A request that
  passes with a \<open>time_left\<close> outside the 64-bit range, or whose insert or commit
  raises, is answered 500. A request that fails leaves the store as it was.
\<close>

theorem save_progress_validation:
  "(fst (save_progress d fault req) = Inl Invalid_data \<longleftrightarrow>
      \<not> (truthy (sv_student_id req) \<and> truthy (sv_exam_id req) \<and> truthy (sv_teacher_id req) \<and>
         truthy (sv_answers req) \<and> sv_time_left req \<noteq> None \<and> truthy (sv_question_status req)))
   \<and> (truthy (sv_student_id req) \<and> truthy (sv_exam_id req) \<and> truthy (sv_teacher_id req) \<and>
       truthy (sv_answers req) \<and> truthy (sv_question_status req) \<and>
       sv_time_left req = Some secs \<and> sqlite_integer secs \<longrightarrow>
        (\<exists>s e t a qs. sv_student_id req = Some s \<and> sv_exam_id req = Some e \<and> sv_teacher_id req = Some t
           \<and> sv_answers req = Some a \<and> sv_question_status req = Some qs
           \<and> fst (save_progress d None req) = Inr ()
           \<and> in_progress_of (snd (save_progress d None req)) s e =
               [\<lparr>p_student_id = s, p_exam_id = e, p_teacher_id = t, p_answers = a,
                 p_question_status = qs, p_time_left = secs\<rparr>]
           \<and> (\<forall>s' e'. \<not> (s' = s \<and> e' = e) \<longrightarrow>
                 in_progress_of (snd (save_progress d None req)) s' e' = in_progress_of d s' e')
           \<and> students (snd (save_progress d None req)) = students d
           \<and> questions (snd (save_progress d None req)) = questions d
           \<and> results (snd (save_progress d None req)) = results d))
   \<and> (truthy (sv_student_id req) \<and> truthy (sv_exam_id req) \<and> truthy (sv_teacher_id req) \<and>
       truthy (sv_answers req) \<and> truthy (sv_question_status req) \<and>
       sv_time_left req = Some secs \<and> sqlite_integer secs \<longrightarrow>
       fault = Some Insert_fails \<or> fault = Some Commit_fails \<longrightarrow>
        save_progress d fault req = (Inl (An_error_occurred OperationalError), d))
   \<and> (truthy (sv_student_id req) \<and> truthy (sv_exam_id req) \<and> truthy (sv_teacher_id req) \<and>
       truthy (sv_answers req) \<and> truthy (sv_question_status req) \<and>
       sv_time_left req = Some secs \<and> \<not> sqlite_integer secs \<longrightarrow>
        save_progress d fault req = (Inl (An_error_occurred OverflowError), d))
   \<and> (fst (save_progress d fault req) = Inl err \<longrightarrow> snd (save_progress d fault req) = d)"
proof -
  have ok: "truthy (sv_student_id req) \<and> truthy (sv_exam_id req) \<and> truthy (sv_teacher_id req) \<and>
       truthy (sv_answers req) \<and> truthy (sv_question_status req) \<and>
       sv_time_left req = Some secs \<and> sqlite_integer secs \<longrightarrow>
        (\<exists>s e t a qs. sv_student_id req = Some s \<and> sv_exam_id req = Some e \<and> sv_teacher_id req = Some t
           \<and> sv_answers req = Some a \<and> sv_question_status req = Some qs
           \<and> fst (save_progress d None req) = Inr ()
           \<and> in_progress_of (snd (save_progress d None req)) s e =
               [\<lparr>p_student_id = s, p_exam_id = e, p_teacher_id = t, p_answers = a,
                 p_question_status = qs, p_time_left = secs\<rparr>]
           \<and> (\<forall>s' e'. \<not> (s' = s \<and> e' = e) \<longrightarrow>
                 in_progress_of (snd (save_progress d None req)) s' e' = in_progress_of d s' e')
           \<and> students (snd (save_progress d None req)) = students d
           \<and> questions (snd (save_progress d None req)) = questions d
           \<and> results (snd (save_progress d None req)) = results d)"
  proof (rule impI)
    assume v: "truthy (sv_student_id req) \<and> truthy (sv_exam_id req) \<and> truthy (sv_teacher_id req) \<and>
       truthy (sv_answers req) \<and> truthy (sv_question_status req) \<and>
       sv_time_left req = Some secs \<and> sqlite_integer secs"
    from v save_ok[of req secs d] obtain s e t a qs where
      f: "sv_student_id req = Some s" "sv_exam_id req = Some e" "sv_teacher_id req = Some t"
         "sv_answers req = Some a" "sv_question_status req = Some qs"
      and r: "save_progress d None req =
         (Inr (), d\<lparr>in_progress_exams := replace_in_progress (in_progress_exams d)
            \<lparr>p_student_id = s, p_exam_id = e, p_teacher_id = t, p_answers = a,
             p_question_status = qs, p_time_left = secs\<rparr>\<rparr>)"
      by blast
    show "\<exists>s e t a qs. sv_student_id req = Some s \<and> sv_exam_id req = Some e \<and> sv_teacher_id req = Some t
           \<and> sv_answers req = Some a \<and> sv_question_status req = Some qs
           \<and> fst (save_progress d None req) = Inr ()
           \<and> in_progress_of (snd (save_progress d None req)) s e =
               [\<lparr>p_student_id = s, p_exam_id = e, p_teacher_id = t, p_answers = a,
                 p_question_status = qs, p_time_left = secs\<rparr>]
           \<and> (\<forall>s' e'. \<not> (s' = s \<and> e' = e) \<longrightarrow>
                 in_progress_of (snd (save_progress d None req)) s' e' = in_progress_of d s' e')
           \<and> students (snd (save_progress d None req)) = students d
           \<and> questions (snd (save_progress d None req)) = questions d
           \<and> results (snd (save_progress d None req)) = results d"
      by (intro exI[of _ s] exI[of _ e] exI[of _ t] exI[of _ a] exI[of _ qs])
         (simp add: f r in_progress_of_replace)
  qed
  have flt: "truthy (sv_student_id req) \<and> truthy (sv_exam_id req) \<and> truthy (sv_teacher_id req) \<and>
       truthy (sv_answers req) \<and> truthy (sv_question_status req) \<and>
       sv_time_left req = Some secs \<and> sqlite_integer secs \<longrightarrow>
       fault = Some Insert_fails \<or> fault = Some Commit_fails \<longrightarrow>
        save_progress d fault req = (Inl (An_error_occurred OperationalError), d)"
    using save_fault_fails[of req secs fault d] by blast
  have ovf: "truthy (sv_student_id req) \<and> truthy (sv_exam_id req) \<and> truthy (sv_teacher_id req) \<and>
       truthy (sv_answers req) \<and> truthy (sv_question_status req) \<and>
       sv_time_left req = Some secs \<and> \<not> sqlite_integer secs \<longrightarrow>
        save_progress d fault req = (Inl (An_error_occurred OverflowError), d)"
    using save_overflow[of req secs d fault] by blast
  have un: "fst (save_progress d fault req) = Inl err \<longrightarrow> snd (save_progress d fault req) = d"
    using save_InlD[of d fault req err] by blast
  show ?thesis
    by (rule conjI[OF save_invalid_iff conjI[OF ok conjI[OF flt conjI[OF ovf un]]]])
qed

text \<open>
  On the small store with saved progress, a second save replaces the row; without
  \<open>time_left\<close> it is refused, with a \<open>time_left\<close> of \<open>2 ^ 63\<close> it answers 500 and
  keeps the row, and so it does with a commit that raises.
\<close>

theorem save_progress_validation_witness:
  "truthy (sv_student_id save1) \<and> truthy (sv_exam_id save1) \<and> truthy (sv_teacher_id save1)
   \<and> truthy (sv_answers save1) \<and> truthy (sv_question_status save1)
   \<and> sv_time_left save1 = Some 120 \<and> sqlite_integer 120
   \<and> in_progress_of db1 ''S1'' ''E1'' =
       [\<lparr>p_student_id = ''S1'', p_exam_id = ''E1'', p_teacher_id = ''T1'', p_answers = [(''Q1'', ''A'')],
         p_question_status = [(''Q1'', ''answered'')], p_time_left = 300\<rparr>]
   \<and> fst (save_progress db1 None save1) = Inr ()
   \<and> in_progress_of (snd (save_progress db1 None save1)) ''S1'' ''E1'' =
       [\<lparr>p_student_id = ''S1'', p_exam_id = ''E1'', p_teacher_id = ''T1'', p_answers = [(''Q2'', ''B'')],
         p_question_status = [(''Q2'', ''answered'')], p_time_left = 120\<rparr>]
   \<and> fst (save_progress db1 None (save1\<lparr>sv_time_left := None\<rparr>)) = Inl Invalid_data
   \<and> save_progress db1 (Some Commit_fails) save1 = (Inl (An_error_occurred OperationalError), db1)
   \<and> \<not> sqlite_integer (2 ^ 63)
   \<and> save_progress db1 None (save1\<lparr>sv_time_left := Some (2 ^ 63)\<rparr>) =
       (Inl (An_error_occurred OverflowError), db1)"
proof -
  note t = save_progress_validation[where d = db1 and req = save1 and secs = 120]
  have f: "save_progress db1 (Some Commit_fails) save1 = (Inl (An_error_occurred OperationalError), db1)"
    by (rule t[where fault = "Some Commit_fails", THEN conjunct2, THEN conjunct2, THEN conjunct1,
          THEN mp, THEN mp, OF save1_valid]) simp
  from t[where fault = None, THEN conjunct2, THEN conjunct1, THEN mp, OF save1_valid]
  obtain s e t' a qs where g: "sv_student_id save1 = Some s" "sv_exam_id save1 = Some e"
      "sv_teacher_id save1 = Some t'" "sv_answers save1 = Some a" "sv_question_status save1 = Some qs"
    and a: "fst (save_progress db1 None save1) = Inr ()"
    and b0: "in_progress_of (snd (save_progress db1 None save1)) s e =
               [\<lparr>p_student_id = s, p_exam_id = e, p_teacher_id = t', p_answers = a,
                 p_question_status = qs, p_time_left = 120\<rparr>]" by blast
  from g have "s = ''S1''" "e = ''E1''" "t' = ''T1''" "a = [(''Q2'', ''B'')]" "qs = [(''Q2'', ''answered'')]"
    by (simp_all add: save1_def)
  with b0 have b: "in_progress_of (snd (save_progress db1 None save1)) ''S1'' ''E1'' =
       [\<lparr>p_student_id = ''S1'', p_exam_id = ''E1'', p_teacher_id = ''T1'', p_answers = [(''Q2'', ''B'')],
         p_question_status = [(''Q2'', ''answered'')], p_time_left = 120\<rparr>]" by simp
  have "\<not> (truthy (sv_student_id (save1\<lparr>sv_time_left := None\<rparr>)) \<and> truthy (sv_exam_id (save1\<lparr>sv_time_left := None\<rparr>))
     \<and> truthy (sv_teacher_id (save1\<lparr>sv_time_left := None\<rparr>)) \<and> truthy (sv_answers (save1\<lparr>sv_time_left := None\<rparr>))
     \<and> sv_time_left (save1\<lparr>sv_time_left := None\<rparr>) \<noteq> None \<and> truthy (sv_question_status (save1\<lparr>sv_time_left := None\<rparr>)))"
    by simp
  then have c: "fst (save_progress db1 None (save1\<lparr>sv_time_left := None\<rparr>)) = Inl Invalid_data"
    by (rule save_progress_validation[where d = db1 and fault = None and req = "save1\<lparr>sv_time_left := None\<rparr>",
          THEN conjunct1, THEN iffD2])
  have o: "save_progress db1 None (save1\<lparr>sv_time_left := Some (2 ^ 63)\<rparr>) =
       (Inl (An_error_occurred OverflowError), db1)"
    by (rule save_progress_validation[where d = db1 and fault = None
          and req = "save1\<lparr>sv_time_left := Some (2 ^ 63)\<rparr>" and secs = "2 ^ 63",
          THEN conjunct2, THEN conjunct2, THEN conjunct2, THEN conjunct1, THEN mp, OF save1_too_long])
  have n: "\<not> sqlite_integer (2 ^ 63)" using save1_too_long by blast
  have v1: "truthy (sv_student_id save1)" and v2: "truthy (sv_exam_id save1)"
    and v3: "truthy (sv_teacher_id save1)" and v4: "truthy (sv_answers save1)"
    and v5: "truthy (sv_question_status save1)" and v6: "sv_time_left save1 = Some 120"
    and v7: "sqlite_integer 120"
    using save1_valid by blast+
  show ?thesis
    by (intro conjI v1 v2 v3 v4 v5 v6 v7 in_progress_of_db1 a b c f n o)
qed

text \<open>
  A request with every field present and an empty answer map is refused as invalid.
\<close>

theorem save_progress_empty_answers_counterexample:
  "sv_student_id (save1\<lparr>sv_answers := Some []\<rparr>) = Some ''S1''
   \<and> sv_exam_id (save1\<lparr>sv_answers := Some []\<rparr>) = Some ''E1''
   \<and> sv_teacher_id (save1\<lparr>sv_answers := Some []\<rparr>) = Some ''T1''
   \<and> sv_answers (save1\<lparr>sv_answers := Some []\<rparr>) = Some []
   \<and> sv_time_left (save1\<lparr>sv_answers := Some []\<rparr>) = Some 120
   \<and> sv_question_status (save1\<lparr>sv_answers := Some []\<rparr>) = Some [(''Q2'', ''answered'')]
   \<and> save_progress db1 None (save1\<lparr>sv_answers := Some []\<rparr>) = (Inl Invalid_data, db1)"
  by (simp add: save_progress_def save1_def truthy_def)

section \<open>The order of the eligibility checks\<close>

text \<open>
  C7. The start handler decides in this order, each query reading the store as it is
  when the query runs: without a row for the exam it answers 404 exam-not-found; else,
  without a student of that id on the roster of the exam's teacher, 404
  student-not-associated; else, without a row for the exam at the settings query, 404
  settings-not-retrieved; else, once the attempts taken have reached the allowed ones,
  403 with the number of attempts taken; else, without a real question, 404
  no-questions; else it succeeds, or fails with 500 when the student has been deleted
  since the second check. The five failures are distinct and each of them occurs: four
  on one store, and the failure of the settings query when the teacher deletes the
  only row of the exam between the second and the third query. On one store, that
  query is the one that found the exam's row in the first step, and the third failure
  does not occur.
\<close>

theorem check_exam_eligibility_order:
  "(fetchone (questions_of_exam (ds 0) eid) = None \<longrightarrow>
      check_exam_eligibility_at ds rnd sid eid = Inl Exam_not_found)
   \<and> (fetchone (questions_of_exam (ds 0) eid) = Some exam_teacher \<longrightarrow>
        (fetchone [st \<leftarrow> students (ds 1). Some (s_student_id st) = sid \<and> s_teacher_id st = q_teacher_id exam_teacher] = None \<longrightarrow>
           check_exam_eligibility_at ds rnd sid eid = Inl Student_not_associated)
      \<and> (fetchone [st \<leftarrow> students (ds 1). Some (s_student_id st) = sid \<and> s_teacher_id st = q_teacher_id exam_teacher] = Some a \<longrightarrow>
           (fetchone (questions_of_exam (ds 2) eid) = None \<longrightarrow>
              check_exam_eligibility_at ds rnd sid eid = Inl Settings_not_retrieved)
         \<and> (fetchone (questions_of_exam (ds 2) eid) = Some exam_settings \<longrightarrow>
              (q_allowed_attempts exam_settings \<le> num_attempts (ds 3) sid eid \<longrightarrow>
                 check_exam_eligibility_at ds rnd sid eid =
                   Inl (No_attempts_remaining (num_attempts (ds 3) sid eid)))
            \<and> (num_attempts (ds 3) sid eid < q_allowed_attempts exam_settings \<longrightarrow>
                 (real_questions (ds 5) eid = [] \<longrightarrow>
                    check_exam_eligibility_at ds rnd sid eid = Inl Exam_has_no_questions)
               \<and> (real_questions (ds 5) eid \<noteq> [] \<longrightarrow>
                    (fetchone [st \<leftarrow> students (ds 4). Some (s_student_id st) = sid] = None \<longrightarrow>
                       check_exam_eligibility_at ds rnd sid eid = Inl (An_error_occurred TypeError))
                  \<and> (fetchone [st \<leftarrow> students (ds 4). Some (s_student_id st) = sid] \<noteq> None \<longrightarrow>
                       (\<exists>p. check_exam_eligibility_at ds rnd sid eid = Inr p)))))))
   \<and> check_exam_eligibility_at (\<lambda>i. d) rnd sid eid = check_exam_eligibility d rnd sid eid
   \<and> check_exam_eligibility d rnd sid eid \<noteq> Inl Settings_not_retrieved
   \<and> check_exam_eligibility_at (\<lambda>i. db0) rnd (Some ''S1'') (Some ''E9'') = Inl Exam_not_found
   \<and> check_exam_eligibility_at (\<lambda>i. db0) rnd (Some ''S9'') (Some ''E1'') = Inl Student_not_associated
   \<and> delete_question db_settings None (Some ''T1'') (Some ''E1'') (Some ''placeholder'') =
       (Deleted, db_settings\<lparr>questions := []\<rparr>)
   \<and> check_exam_eligibility_at question_deleted_between rnd (Some ''S1'') (Some ''E1'') =
       Inl Settings_not_retrieved
   \<and> check_exam_eligibility_at (\<lambda>i. db2) rnd (Some ''S1'') (Some ''E1'') = Inl (No_attempts_remaining 1)
   \<and> check_exam_eligibility_at (\<lambda>i. db_settings) rnd (Some ''S1'') (Some ''E1'') =
       Inl Exam_has_no_questions
   \<and> distinct [Exam_not_found, Student_not_associated, Settings_not_retrieved,
        No_attempts_remaining n, Exam_has_no_questions]
   \<and> map status [Exam_not_found, Student_not_associated, Settings_not_retrieved,
        No_attempts_remaining n, Exam_has_no_questions] = [404, 404, 404, 403, 404]"
proof -
  have o: "(fetchone (questions_of_exam (ds 0) eid) = None \<longrightarrow>
      check_exam_eligibility_at ds rnd sid eid = Inl Exam_not_found)
   \<and> (fetchone (questions_of_exam (ds 0) eid) = Some exam_teacher \<longrightarrow>
        (fetchone [st \<leftarrow> students (ds 1). Some (s_student_id st) = sid \<and> s_teacher_id st = q_teacher_id exam_teacher] = None \<longrightarrow>
           check_exam_eligibility_at ds rnd sid eid = Inl Student_not_associated)
      \<and> (fetchone [st \<leftarrow> students (ds 1). Some (s_student_id st) = sid \<and> s_teacher_id st = q_teacher_id exam_teacher] = Some a \<longrightarrow>
           (fetchone (questions_of_exam (ds 2) eid) = None \<longrightarrow>
              check_exam_eligibility_at ds rnd sid eid = Inl Settings_not_retrieved)
         \<and> (fetchone (questions_of_exam (ds 2) eid) = Some exam_settings \<longrightarrow>
              (q_allowed_attempts exam_settings \<le> num_attempts (ds 3) sid eid \<longrightarrow>
                 check_exam_eligibility_at ds rnd sid eid =
                   Inl (No_attempts_remaining (num_attempts (ds 3) sid eid)))
            \<and> (num_attempts (ds 3) sid eid < q_allowed_attempts exam_settings \<longrightarrow>
                 (real_questions (ds 5) eid = [] \<longrightarrow>
                    check_exam_eligibility_at ds rnd sid eid = Inl Exam_has_no_questions)
               \<and> (real_questions (ds 5) eid \<noteq> [] \<longrightarrow>
                    (fetchone [st \<leftarrow> students (ds 4). Some (s_student_id st) = sid] = None \<longrightarrow>
                       check_exam_eligibility_at ds rnd sid eid = Inl (An_error_occurred TypeError))
                  \<and> (fetchone [st \<leftarrow> students (ds 4). Some (s_student_id st) = sid] \<noteq> None \<longrightarrow>
                       (\<exists>p. check_exam_eligibility_at ds rnd sid eid = Inr p)))))))"
  proof (intro conjI impI)
    assume "fetchone (questions_of_exam (ds 0) eid) = None"
    then show "check_exam_eligibility_at ds rnd sid eid = Inl Exam_not_found"
      by (rule start_at_no_exam)
  next
    assume "fetchone (questions_of_exam (ds 0) eid) = Some exam_teacher"
      and "fetchone [st \<leftarrow> students (ds 1). Some (s_student_id st) = sid \<and> s_teacher_id st = q_teacher_id exam_teacher] = None"
    then show "check_exam_eligibility_at ds rnd sid eid = Inl Student_not_associated"
      by (rule start_at_no_student)
  next
    assume "fetchone (questions_of_exam (ds 0) eid) = Some exam_teacher"
      and "fetchone [st \<leftarrow> students (ds 1). Some (s_student_id st) = sid \<and> s_teacher_id st = q_teacher_id exam_teacher] = Some a"
      and "fetchone (questions_of_exam (ds 2) eid) = None"
    then show "check_exam_eligibility_at ds rnd sid eid = Inl Settings_not_retrieved"
      by (rule start_at_no_settings)
  next
    assume "fetchone (questions_of_exam (ds 0) eid) = Some exam_teacher"
      and "fetchone [st \<leftarrow> students (ds 1). Some (s_student_id st) = sid \<and> s_teacher_id st = q_teacher_id exam_teacher] = Some a"
      and "fetchone (questions_of_exam (ds 2) eid) = Some exam_settings"
      and "q_allowed_attempts exam_settings \<le> num_attempts (ds 3) sid eid"
    then show "check_exam_eligibility_at ds rnd sid eid =
        Inl (No_attempts_remaining (num_attempts (ds 3) sid eid))"
      by (rule start_at_exhausted)
  next
    assume "fetchone (questions_of_exam (ds 0) eid) = Some exam_teacher"
      and "fetchone [st \<leftarrow> students (ds 1). Some (s_student_id st) = sid \<and> s_teacher_id st = q_teacher_id exam_teacher] = Some a"
      and "fetchone (questions_of_exam (ds 2) eid) = Some exam_settings"
      and "num_attempts (ds 3) sid eid < q_allowed_attempts exam_settings"
      and "real_questions (ds 5) eid = []"
    then show "check_exam_eligibility_at ds rnd sid eid = Inl Exam_has_no_questions"
      by (rule start_at_no_questions)
  next
    assume "fetchone (questions_of_exam (ds 0) eid) = Some exam_teacher"
      and "fetchone [st \<leftarrow> students (ds 1). Some (s_student_id st) = sid \<and> s_teacher_id st = q_teacher_id exam_teacher] = Some a"
      and "fetchone (questions_of_exam (ds 2) eid) = Some exam_settings"
      and "num_attempts (ds 3) sid eid < q_allowed_attempts exam_settings"
      and "real_questions (ds 5) eid \<noteq> []"
      and "fetchone [st \<leftarrow> students (ds 4). Some (s_student_id st) = sid] = None"
    then show "check_exam_eligibility_at ds rnd sid eid = Inl (An_error_occurred TypeError)"
      by (rule start_at_type_error)
  next
    assume "fetchone (questions_of_exam (ds 0) eid) = Some exam_teacher"
      and "fetchone [st \<leftarrow> students (ds 1). Some (s_student_id st) = sid \<and> s_teacher_id st = q_teacher_id exam_teacher] = Some a"
      and "fetchone (questions_of_exam (ds 2) eid) = Some exam_settings"
      and "num_attempts (ds 3) sid eid < q_allowed_attempts exam_settings"
      and "real_questions (ds 5) eid \<noteq> []"
      and "fetchone [st \<leftarrow> students (ds 4). Some (s_student_id st) = sid] \<noteq> None"
    then show "\<exists>p. check_exam_eligibility_at ds rnd sid eid = Inr p"
      by (rule start_at_passes)
  qed
  have e: "check_exam_eligibility_at (\<lambda>i. d) rnd sid eid = check_exam_eligibility d rnd sid eid"
    by (rule start_at_one_store)
  have ns: "check_exam_eligibility d rnd sid eid \<noteq> Inl Settings_not_retrieved"
    by (rule start_never_settings)
  have r1: "check_exam_eligibility_at (\<lambda>i. db0) rnd (Some ''S1'') (Some ''E9'') = Inl Exam_not_found"
    by (rule start_at_no_exam) (rule no_exam_db0)
  have r2: "check_exam_eligibility_at (\<lambda>i. db0) rnd (Some ''S9'') (Some ''E1'') = Inl Student_not_associated"
    by (rule start_at_no_student[where t = settings_row]) (rule fetchone_settings_db0 no_student_db0)+
  have dl: "delete_question db_settings None (Some ''T1'') (Some ''E1'') (Some ''placeholder'') =
       (Deleted, db_settings\<lparr>questions := []\<rparr>)"
    by (rule delete_placeholder)
  have r3: "check_exam_eligibility_at question_deleted_between rnd (Some ''S1'') (Some ''E1'') =
       Inl Settings_not_retrieved"
    by (rule start_at_no_settings[where t = settings_row]) (rule question_deleted_between_queries)+
  have "check_exam_eligibility_at (\<lambda>i. db2) rnd (Some ''S1'') (Some ''E1'') =
      Inl (No_attempts_remaining (num_attempts db2 (Some ''S1'') (Some ''E1'')))"
    using start_at_exhausted[where ds = "\<lambda>i. db2" and t = settings_row and spec = settings_row
        and sid = "Some ''S1''" and eid = "Some ''E1''" and rnd = rnd]
      fetchone_settings_db2 fetchone_student_db2
    by (simp add: num_attempts_db2 settings_row_def)
  then have r4: "check_exam_eligibility_at (\<lambda>i. db2) rnd (Some ''S1'') (Some ''E1'') =
      Inl (No_attempts_remaining 1)"
    by (simp add: num_attempts_db2)
  have r5: "check_exam_eligibility_at (\<lambda>i. db_settings) rnd (Some ''S1'') (Some ''E1'') =
       Inl Exam_has_no_questions"
    using start_at_no_questions[where ds = "\<lambda>i. db_settings" and t = settings_row and spec = settings_row
        and sid = "Some ''S1''" and eid = "Some ''E1''" and rnd = rnd] db_settings_queries
    by (simp add: settings_row_def)
  have s1: "distinct [Exam_not_found, Student_not_associated, Settings_not_retrieved,
        No_attempts_remaining n, Exam_has_no_questions]" by simp
  have s2: "map status [Exam_not_found, Student_not_associated, Settings_not_retrieved,
        No_attempts_remaining n, Exam_has_no_questions] = [404, 404, 404, 403, 404]" by simp
  show ?thesis
    by (rule conjI[OF o[THEN conjunct1] conjI[OF o[THEN conjunct2] conjI[OF e conjI[OF ns conjI[OF r1
          conjI[OF r2 conjI[OF dl conjI[OF r3 conjI[OF r4 conjI[OF r5 conjI[OF s1 s2]]]]]]]]]]])
qed

text \<open>
  Each branch of the order: four failures and the success on the small store, the
  failure of the settings query with the exam's only row deleted after the second
  query, and the failure of the last step with the student deleted after the fourth.
\<close>

theorem check_exam_eligibility_order_witness:
  "fetchone (questions_of_exam db0 (Some ''E9'')) = None
   \<and> check_exam_eligibility_at (\<lambda>i. db0) (\<lambda>i. 0) (Some ''S1'') (Some ''E9'') = Inl Exam_not_found
   \<and> fetchone (questions_of_exam db0 (Some ''E1'')) = Some settings_row
   \<and> check_exam_eligibility_at (\<lambda>i. db0) (\<lambda>i. 0) (Some ''S9'') (Some ''E1'') = Inl Student_not_associated
   \<and> fetchone (questions_of_exam (question_deleted_between 0) (Some ''E1'')) = Some settings_row
   \<and> fetchone (questions_of_exam (question_deleted_between 2) (Some ''E1'')) = None
   \<and> check_exam_eligibility_at question_deleted_between (\<lambda>i. 0) (Some ''S1'') (Some ''E1'') =
       Inl Settings_not_retrieved
   \<and> num_attempts db2 (Some ''S1'') (Some ''E1'') = 1 \<and> q_allowed_attempts settings_row = 1
   \<and> check_exam_eligibility_at (\<lambda>i. db2) (\<lambda>i. 0) (Some ''S1'') (Some ''E1'') = Inl (No_attempts_remaining 1)
   \<and> real_questions db_settings (Some ''E1'') = []
   \<and> check_exam_eligibility_at (\<lambda>i. db_settings) (\<lambda>i. 0) (Some ''S1'') (Some ''E1'') =
       Inl Exam_has_no_questions
   \<and> fetchone [st \<leftarrow> students (student_deleted_between 4). Some (s_student_id st) = Some ''S1''] = None
   \<and> check_exam_eligibility_at student_deleted_between (\<lambda>i. 0) (Some ''S1'') (Some ''E1'') =
       Inl (An_error_occurred TypeError)
   \<and> real_questions db0 (Some ''E1'') \<noteq> []
   \<and> (\<exists>p. check_exam_eligibility_at (\<lambda>i. db0) (\<lambda>i. 0) (Some ''S1'') (Some ''E1'') = Inr p)
   \<and> check_exam_eligibility_at (\<lambda>i. db0) (\<lambda>i. 0) (Some ''S1'') (Some ''E1'') =
       check_exam_eligibility db0 (\<lambda>i. 0) (Some ''S1'') (Some ''E1'')"
proof -
  have a: "q_allowed_attempts settings_row = 1" by (simp add: settings_row_def)
  note so = db_settings_queries
  have w1: "check_exam_eligibility_at (\<lambda>i. db0) (\<lambda>i. 0) (Some ''S1'') (Some ''E9'') = Inl Exam_not_found"
    using check_exam_eligibility_order[where ds = "\<lambda>i. db0" and eid = "Some ''E9''" and sid = "Some ''S1''"
        and rnd = "\<lambda>i. 0"] no_exam_db0 by blast
  have w2: "check_exam_eligibility_at (\<lambda>i. db0) (\<lambda>i. 0) (Some ''S9'') (Some ''E1'') = Inl Student_not_associated"
    using check_exam_eligibility_order[where ds = "\<lambda>i. db0" and eid = "Some ''E1''" and sid = "Some ''S9''"
        and rnd = "\<lambda>i. 0" and exam_teacher = settings_row] fetchone_settings_db0 no_student_db0 by blast
  have w3: "check_exam_eligibility_at question_deleted_between (\<lambda>i. 0) (Some ''S1'') (Some ''E1'') =
       Inl Settings_not_retrieved"
    using check_exam_eligibility_order[where ds = question_deleted_between and eid = "Some ''E1''"
        and sid = "Some ''S1''" and rnd = "\<lambda>i. 0" and exam_teacher = settings_row]
      question_deleted_between_queries by blast
  have "q_allowed_attempts settings_row \<le> num_attempts db2 (Some ''S1'') (Some ''E1'')"
    by (simp add: a num_attempts_db2)
  then have "check_exam_eligibility_at (\<lambda>i. db2) (\<lambda>i. 0) (Some ''S1'') (Some ''E1'') =
      Inl (No_attempts_remaining (num_attempts db2 (Some ''S1'') (Some ''E1'')))"
    using check_exam_eligibility_order[where ds = "\<lambda>i. db2" and eid = "Some ''E1''" and sid = "Some ''S1''"
        and rnd = "\<lambda>i. 0" and exam_teacher = settings_row and exam_settings = settings_row]
      fetchone_settings_db2 fetchone_student_db2 by blast
  then have w4: "check_exam_eligibility_at (\<lambda>i. db2) (\<lambda>i. 0) (Some ''S1'') (Some ''E1'') =
      Inl (No_attempts_remaining 1)"
    by (simp add: num_attempts_db2)
  have "num_attempts db_settings (Some ''S1'') (Some ''E1'') < q_allowed_attempts settings_row"
    by (simp add: a so)
  then have w5: "check_exam_eligibility_at (\<lambda>i. db_settings) (\<lambda>i. 0) (Some ''S1'') (Some ''E1'') =
       Inl Exam_has_no_questions"
    using check_exam_eligibility_order[where ds = "\<lambda>i. db_settings" and eid = "Some ''E1''"
        and sid = "Some ''S1''" and rnd = "\<lambda>i. 0" and exam_teacher = settings_row
        and exam_settings = settings_row] so by blast
  have q: "real_questions db0 (Some ''E1'') \<noteq> []" by (simp add: real_questions_db0)
  have q': "real_questions (student_deleted_between 5) (Some ''E1'') \<noteq> []"
    by (simp add: student_deleted_between_queries)
  have "num_attempts (student_deleted_between 3) (Some ''S1'') (Some ''E1'') < q_allowed_attempts settings_row"
    by (simp add: a student_deleted_between_queries)
  then have w6: "check_exam_eligibility_at student_deleted_between (\<lambda>i. 0) (Some ''S1'') (Some ''E1'') =
       Inl (An_error_occurred TypeError)"
    using check_exam_eligibility_order[where ds = student_deleted_between and eid = "Some ''E1''"
        and sid = "Some ''S1''" and rnd = "\<lambda>i. 0" and exam_teacher = settings_row
        and exam_settings = settings_row] student_deleted_between_queries(1,2,3,5) q' by blast
  have "num_attempts db0 (Some ''S1'') (Some ''E1'') < q_allowed_attempts settings_row"
    by (simp add: a num_attempts_db0)
  then have w7: "\<exists>p. check_exam_eligibility_at (\<lambda>i. db0) (\<lambda>i. 0) (Some ''S1'') (Some ''E1'') = Inr p"
    using check_exam_eligibility_order[where ds = "\<lambda>i. db0" and eid = "Some ''E1''" and sid = "Some ''S1''"
        and rnd = "\<lambda>i. 0" and exam_teacher = settings_row and exam_settings = settings_row]
      fetchone_settings_db0 fetchone_student_db0 q student_data_db0 by blast
  have w8: "check_exam_eligibility_at (\<lambda>i. db0) (\<lambda>i. 0) (Some ''S1'') (Some ''E1'') =
       check_exam_eligibility db0 (\<lambda>i. 0) (Some ''S1'') (Some ''E1'')"
    using check_exam_eligibility_order[where d = db0 and sid = "Some ''S1''" and eid = "Some ''E1''"
        and rnd = "\<lambda>i. 0"] by blast
  show ?thesis
    by (intro conjI no_exam_db0 w1 fetchone_settings_db0 w2 question_deleted_between_queries(1)
        question_deleted_between_queries(3) w3 num_attempts_db2 a w4 so(2) w5
        student_deleted_between_queries(5) w6 q w7 w8)
qed

section \<open>Shuffling and grading\<close>

text \<open>
  C8. The question list of a start that succeeds is a permutation of the views of the
  exam's real questions: the same records with the same multiplicities, so as many as
  there are real questions, and, under the primary key of the question table, each
  real question exactly once and nothing else. Grading looks answers up by question
  text: under the primary key, a submission gets the same score (or the same error) in
  whatever order the question rows are listed, and the same response in whatever
  order the entries of the answer map were put in.
\<close>

theorem shuffle_only_reorders:
  "(check_exam_eligibility d rnd sid eid = Inr p \<longrightarrow>
       mset (d_questions (sp_exam_data p)) = mset (map to_view (real_questions d eid))
     \<and> length (d_questions (sp_exam_data p)) = length (real_questions d eid)
     \<and> (pk_questions d \<longrightarrow> distinct (d_questions (sp_exam_data p))
          \<and> set (d_questions (sp_exam_data p)) = to_view ` set (real_questions d eid)))
   \<and> (pk_questions d \<longrightarrow> mset qs' = mset (questions d) \<longrightarrow>
        map_sum id score (fst (submit_exam (d\<lparr>questions := qs'\<rparr>) rid fault req)) =
        map_sum id score (fst (submit_exam d rid fault req)))
   \<and> (distinct (map fst a1) \<longrightarrow> mset a2 = mset a1 \<longrightarrow>
        fst (submit_exam d rid fault (req\<lparr>sb_answers := Some a2\<rparr>)) =
        fst (submit_exam d rid fault (req\<lparr>sb_answers := Some a1\<rparr>)))"
proof -
  have a: "check_exam_eligibility d rnd sid eid = Inr p \<longrightarrow>
       mset (d_questions (sp_exam_data p)) = mset (map to_view (real_questions d eid))
     \<and> length (d_questions (sp_exam_data p)) = length (real_questions d eid)
     \<and> (pk_questions d \<longrightarrow> distinct (d_questions (sp_exam_data p))
          \<and> set (d_questions (sp_exam_data p)) = to_view ` set (real_questions d eid))"
  proof (rule impI)
    assume ok: "check_exam_eligibility d rnd sid eid = Inr p"
    note m = start_questions_mset[OF ok]
    from m have l: "length (d_questions (sp_exam_data p)) = length (real_questions d eid)"
      by (metis length_map mset_eq_length)
    from m have s: "set (d_questions (sp_exam_data p)) = to_view ` set (real_questions d eid)"
      by (metis mset_eq_setD set_map)
    have "distinct (d_questions (sp_exam_data p))" if "pk_questions d"
      using views_distinct[OF that, of eid] m by (metis mset_eq_imp_distinct_iff)
    with s have "pk_questions d \<longrightarrow> distinct (d_questions (sp_exam_data p))
          \<and> set (d_questions (sp_exam_data p)) = to_view ` set (real_questions d eid)" by simp
    with m l show "mset (d_questions (sp_exam_data p)) = mset (map to_view (real_questions d eid))
     \<and> length (d_questions (sp_exam_data p)) = length (real_questions d eid)
     \<and> (pk_questions d \<longrightarrow> distinct (d_questions (sp_exam_data p))
          \<and> set (d_questions (sp_exam_data p)) = to_view ` set (real_questions d eid))"
      by (intro conjI)
  qed
  have b: "pk_questions d \<longrightarrow> mset qs' = mset (questions d) \<longrightarrow>
        map_sum id score (fst (submit_exam (d\<lparr>questions := qs'\<rparr>) rid fault req)) =
        map_sum id score (fst (submit_exam d rid fault req))"
    by (intro impI) (rule submit_score_reordered)
  have c: "distinct (map fst a1) \<longrightarrow> mset a2 = mset a1 \<longrightarrow>
        fst (submit_exam d rid fault (req\<lparr>sb_answers := Some a2\<rparr>)) =
        fst (submit_exam d rid fault (req\<lparr>sb_answers := Some a1\<rparr>))"
    by (intro impI) (rule submit_answers_reordered)
  show ?thesis by (rule conjI[OF a conjI[OF b c]])
qed

text \<open>
  On the small store the random source that always draws 0 returns Q2 before Q1; the
  score is 1 with the question rows in another order, and with the answers in another
  order.
\<close>

theorem shuffle_only_reorders_witness:
  "pk_questions db0
   \<and> (\<exists>p. check_exam_eligibility db0 (\<lambda>i. 0) (Some ''S1'') (Some ''E1'') = Inr p
        \<and> d_questions (sp_exam_data p) = [to_view q2_row, to_view q1_row]
        \<and> mset (d_questions (sp_exam_data p)) = mset (map to_view (real_questions db0 (Some ''E1'')))
        \<and> distinct (d_questions (sp_exam_data p)))
   \<and> mset [q2_row, settings_row, q1_row] = mset (questions db0)
   \<and> map_sum id score (fst (submit_exam (db0\<lparr>questions := [q2_row, settings_row, q1_row]\<rparr>) ''r1'' None submit0)) = Inr 1
   \<and> map_sum id score (fst (submit_exam db0 ''r1'' None submit0)) = Inr 1
   \<and> distinct (map fst [(''Q1'', ''A''), (''Q2'', ''C'')])
   \<and> fst (submit_exam db0 ''r1'' None (submit0\<lparr>sb_answers := Some [(''Q2'', ''C''), (''Q1'', ''A'')]\<rparr>)) =
       fst (submit_exam db0 ''r1'' None (submit0\<lparr>sb_answers := Some [(''Q1'', ''A''), (''Q2'', ''C'')]\<rparr>))"
proof -
  have di': "distinct (map fst [(''Q1'', ''A''), (''Q2'', ''C'')])" by simp
  have ms: "mset [(''Q2'', ''C''), (''Q1'', ''A'')] = mset [(''Q1'', ''A''), (''Q2'', ''C'')]" by simp
  have an: "fst (submit_exam db0 ''r1'' None (submit0\<lparr>sb_answers := Some [(''Q2'', ''C''), (''Q1'', ''A'')]\<rparr>)) =
       fst (submit_exam db0 ''r1'' None (submit0\<lparr>sb_answers := Some [(''Q1'', ''A''), (''Q2'', ''C'')]\<rparr>))"
    by (rule shuffle_only_reorders[THEN conjunct2, THEN conjunct2, rule_format, OF di' ms])
  obtain p where p: "check_exam_eligibility db0 (\<lambda>i. 0) (Some ''S1'') (Some ''E1'') = Inr p"
    using start_db0 by auto
  from start_InrD[OF p] have o: "d_questions (sp_exam_data p) = [to_view q2_row, to_view q1_row]"
    by (auto simp: real_questions_db0 shuffle_two)
  note t = shuffle_only_reorders[where d = db0 and rnd = "\<lambda>i. 0" and sid = "Some ''S1''"
      and eid = "Some ''E1''" and p = p, THEN conjunct1, THEN mp, OF p]
  from t have m: "mset (d_questions (sp_exam_data p)) = mset (map to_view (real_questions db0 (Some ''E1'')))"
    by (rule conjunct1)
  from t[THEN conjunct2, THEN conjunct2, THEN mp, OF pk_db0]
  have di: "distinct (d_questions (sp_exam_data p))" by (rule conjunct1)
  have "map_sum id score (fst (submit_exam (db0\<lparr>questions := [q2_row, settings_row, q1_row]\<rparr>) ''r1'' None submit0)) =
        map_sum id score (fst (submit_exam db0 ''r1'' None submit0))"
    by (rule shuffle_only_reorders[THEN conjunct2, THEN conjunct1, rule_format, OF pk_db0 reordered_db0])
  moreover have s0: "map_sum id score (fst (submit_exam db0 ''r1'' None submit0)) = Inr 1"
    by (simp add: submit0_db0)
  ultimately have s1: "map_sum id score (fst (submit_exam (db0\<lparr>questions := [q2_row, settings_row, q1_row]\<rparr>)
      ''r1'' None submit0)) = Inr 1" by simp
  show ?thesis by (intro conjI exI[of _ p] pk_db0 p o m di reordered_db0 s1 s0 di' an)
qed

section \<open>What the start payload discloses\<close>

text \<open>
  C9. The response of the start handler is the same whatever the \<open>correct_option\<close>
  values of the question rows: replacing them by any others, row by row, changes
  nothing in it, with the same random source. Each question record of a successful
  response is built from the text, the options and the image of a real question, and
  has no other field.
\<close>

theorem start_hides_correct_option:
  "check_exam_eligibility (d\<lparr>questions := map (\<lambda>q. q\<lparr>q_correct_option := key q\<rparr>) (questions d)\<rparr>) rnd sid eid =
     check_exam_eligibility d rnd sid eid
   \<and> (check_exam_eligibility d rnd sid eid = Inr p \<longrightarrow>
        mset (d_questions (sp_exam_data p)) =
        mset (map (\<lambda>q. \<lparr>v_question_text = q_question_text q, v_options = q_options q,
                          v_image_url = q_image_url q\<rparr>) (real_questions d eid)))"
proof -
  have "mset (d_questions (sp_exam_data p)) =
        mset (map (\<lambda>q. \<lparr>v_question_text = q_question_text q, v_options = q_options q,
                          v_image_url = q_image_url q\<rparr>) (real_questions d eid))"
    if "check_exam_eligibility d rnd sid eid = Inr p"
  proof -
    have "to_view = (\<lambda>q. \<lparr>v_question_text = q_question_text q, v_options = q_options q,
                          v_image_url = q_image_url q\<rparr>)"
      by (rule ext) (simp add: to_view_def)
    with start_questions_mset[OF that] show ?thesis by simp
  qed
  with start_key_independent show ?thesis by blast
qed

text \<open>
  On the small store the start response is the same once every key is replaced by Z.
\<close>

theorem start_hides_correct_option_witness:
  "\<exists>p. check_exam_eligibility db0 (\<lambda>i. 0) (Some ''S1'') (Some ''E1'') = Inr p
      \<and> check_exam_eligibility (db0\<lparr>questions := map (\<lambda>q. q\<lparr>q_correct_option := ''Z''\<rparr>) (questions db0)\<rparr>)
           (\<lambda>i. 0) (Some ''S1'') (Some ''E1'') = Inr p
      \<and> map q_correct_option (questions (db0\<lparr>questions := map (\<lambda>q. q\<lparr>q_correct_option := ''Z''\<rparr>) (questions db0)\<rparr>))
           = [''Z'', ''Z'', ''Z'']
      \<and> map q_correct_option (questions db0) = [''A'', ''A'', ''B'']
      \<and> mset (d_questions (sp_exam_data p)) =
          mset (map (\<lambda>q. \<lparr>v_question_text = q_question_text q, v_options = q_options q,
                            v_image_url = q_image_url q\<rparr>) (real_questions db0 (Some ''E1'')))"
proof -
  obtain p where p: "check_exam_eligibility db0 (\<lambda>i. 0) (Some ''S1'') (Some ''E1'') = Inr p"
    using start_db0 by auto
  note t = start_hides_correct_option[where d = db0 and key = "\<lambda>q. ''Z''" and rnd = "\<lambda>i. 0"
      and sid = "Some ''S1''" and eid = "Some ''E1''" and p = p]
  from t p have a: "check_exam_eligibility (db0\<lparr>questions := map (\<lambda>q. q\<lparr>q_correct_option := ''Z''\<rparr>) (questions db0)\<rparr>)
           (\<lambda>i. 0) (Some ''S1'') (Some ''E1'') = Inr p" by simp
  from t p have b: "mset (d_questions (sp_exam_data p)) =
          mset (map (\<lambda>q. \<lparr>v_question_text = q_question_text q, v_options = q_options q,
                            v_image_url = q_image_url q\<rparr>) (real_questions db0 (Some ''E1'')))" by blast
  have c: "map q_correct_option (questions (db0\<lparr>questions := map (\<lambda>q. q\<lparr>q_correct_option := ''Z''\<rparr>) (questions db0)\<rparr>))
           = [''Z'', ''Z'', ''Z'']"
    "map q_correct_option (questions db0) = [''A'', ''A'', ''B'']"
    by (simp_all add: db0_def settings_row_def q1_row_def q2_row_def)
  show ?thesis by (intro exI[of _ p] conjI p a b c)
qed

section \<open>Question retrieval\<close>

text \<open>
  C10. For every exam id the retrieval handler answers 200 with one record per real
  (non-placeholder) question of the exam, each carrying that question's
  \<open>correct_option\<close>; the answer is a function of the question table and the exam id
  alone, so neither the roster, the results nor any in-progress session (and no
  identity of the caller, which the handler never receives) can change or refuse it.
\<close>

theorem get_questions_by_exam_discloses_keys:
  "get_questions_by_exam d exam_id =
     (200, map to_keyed [q \<leftarrow> questions d. q_exam_id q = exam_id \<and> q_question_text q \<noteq> ''placeholder''])
   \<and> map k_correct_option (snd (get_questions_by_exam d exam_id)) =
       map q_correct_option [q \<leftarrow> questions d. q_exam_id q = exam_id \<and> q_question_text q \<noteq> ''placeholder'']
   \<and> get_questions_by_exam (d\<lparr>students := st, results := rs, in_progress_exams := ip\<rparr>) exam_id =
       get_questions_by_exam d exam_id"
  by (simp add: get_questions_by_exam_def real_questions_def to_keyed_def comp_def)

end
